theory Spec2Isabelle
  imports Complex_Main
begin

section \<open>Python values\<close>

text \<open>
  Strings are \<open>string\<close> values holding the UTF-8 bytes of the Python text. The source
  compares strings, removes substrings and hands them to \<open>strip\<close>, \<open>float\<close> and
  \<open>strptime\<close>; on well-formed UTF-8 a substring match on bytes is a substring match on
  code points, and the three library functions read the code points from the bytes. A
  text that holds a lone surrogate has no UTF-8 form and is not considered.

  A Python \<open>float\<close> is a finite double, given by the rational number it denotes, or one of
  the three special values. The sign of a zero is not kept.
\<close>

datatype pyfloat = Fin rat | PInf | NInf | NaN

datatype pyval =
    PNone
  | PBool bool
  | PInt int
  | PFloat pyfloat
  | PStr string
  | PList "pyval list"
  | PDict "(string \<times> pyval) list"

datatype pyexc =
    ValueError
  | AttributeError
  | OverflowError
  | IntegrityError
  | InterfaceError
  | BackendFailure

subsection \<open>Characters\<close>

definition is_digit :: "char \<Rightarrow> bool" where
  "is_digit c \<longleftrightarrow> 48 \<le> (of_char c :: nat) \<and> (of_char c :: nat) \<le> 57"

definition digit_val :: "char \<Rightarrow> nat" where
  "digit_val c = of_char c - 48"

definition digit_char :: "nat \<Rightarrow> char" where
  "digit_char n = ''0123456789'' ! n"

definition digits_val :: "string \<Rightarrow> nat" where
  "digits_val s = foldl (\<lambda>a c. 10 * a + digit_val c) 0 s"

text \<open>
  The characters of a text, each as its UTF-8 sequence, and their code points. A byte from
  192 on opens a sequence of two, three or four bytes; any other byte stands alone (in
  well-formed text it is an ASCII character).
\<close>

definition seq_len :: "char \<Rightarrow> nat" where
  "seq_len c =
     (if (of_char c :: nat) < 192 then 1 else if (of_char c :: nat) < 224 then 2
      else if (of_char c :: nat) < 240 then 3 else 4)"

function chars_of :: "string \<Rightarrow> string list" where
  "chars_of s =
     (if s = [] then [] else take (seq_len (hd s)) s # chars_of (drop (seq_len (hd s)) s))"
  by pat_completeness auto
termination
  by (relation "measure length") (auto simp: seq_len_def)

declare chars_of.simps [simp del]

definition code_point :: "string \<Rightarrow> nat" where
  "code_point ch =
     (case ch of
        [] \<Rightarrow> 0
      | c # r \<Rightarrow>
          foldl (\<lambda>a x. 64 * a + of_char x mod 64)
            (if seq_len c = 1 then of_char c else if seq_len c = 2 then of_char c mod 32
             else if seq_len c = 3 then of_char c mod 16 else of_char c mod 8) r)"

definition code_points :: "string \<Rightarrow> nat list" where
  "code_points s = map code_point (chars_of s)"

text \<open>The white space of \<open>str.strip\<close> and \<open>str.isspace\<close>, which is also the white-space class
  of a pattern: the code points with the Unicode property, to which Python adds the four
  separators 28 to 31.\<close>

definition is_space :: "nat \<Rightarrow> bool" where
  "is_space c \<longleftrightarrow>
     (9 \<le> c \<and> c \<le> 13) \<or> (28 \<le> c \<and> c \<le> 32) \<or> c = 0x85 \<or> c = 0xA0 \<or> c = 0x1680
     \<or> (0x2000 \<le> c \<and> c \<le> 0x200A) \<or> c = 0x2028 \<or> c = 0x2029 \<or> c = 0x202F
     \<or> c = 0x205F \<or> c = 0x3000"

text \<open>The white space of the C parsers (\<open>Py_ISSPACE\<close>): tab to carriage return, and the
  blank.\<close>

definition c_isspace :: "char \<Rightarrow> bool" where
  "c_isspace c \<longleftrightarrow> (9 \<le> (of_char c :: nat) \<and> (of_char c :: nat) \<le> 13) \<or> c = CHR '' ''"

text \<open>
  The decimal digits of Unicode 14.0, the database of Python 3.11: 66 runs of ten
  consecutive code points, each run the digits 0 to 9 of one script, listed by their zero.
  They are the characters that \<open>float\<close> and \<open>int\<close> read as digits, and the digit class of a
  pattern. A later database has more runs (Unicode 15.0, of Python 3.12, adds those from
  U+11F50 and from U+1E4F0).
\<close>

definition DIGIT_ZEROS :: "nat list" where
  "DIGIT_ZEROS =
     [0x30, 0x660, 0x6F0, 0x7C0, 0x966, 0x9E6, 0xA66, 0xAE6, 0xB66, 0xBE6, 0xC66, 0xCE6,
      0xD66, 0xDE6, 0xE50, 0xED0, 0xF20, 0x1040, 0x1090, 0x17E0, 0x1810, 0x1946, 0x19D0,
      0x1A80, 0x1A90, 0x1B50, 0x1BB0, 0x1C40, 0x1C50, 0xA620, 0xA8D0, 0xA900, 0xA9D0,
      0xA9F0, 0xAA50, 0xABF0, 0xFF10, 0x104A0, 0x10D30, 0x11066, 0x110F0, 0x11136, 0x111D0,
      0x112F0, 0x11450, 0x114D0, 0x11650, 0x116C0, 0x11730, 0x118E0, 0x11950, 0x11C50,
      0x11D50, 0x11DA0, 0x16A60, 0x16AC0, 0x16B50, 0x1D7CE, 0x1D7D8, 0x1D7E2, 0x1D7EC,
      0x1D7F6, 0x1E140, 0x1E2F0, 0x1E950, 0x1FBF0]"

definition decimal :: "nat \<Rightarrow> nat option" where
  "decimal c = map_option (\<lambda>z. c - z) (find (\<lambda>z. z \<le> c \<and> c < z + 10) DIGIT_ZEROS)"

text \<open>\<open>str.strip()\<close> with no argument.\<close>

definition strip :: "string \<Rightarrow> string" where
  "strip s =
     concat (rev (dropWhile (\<lambda>ch. is_space (code_point ch))
       (rev (dropWhile (\<lambda>ch. is_space (code_point ch)) (chars_of s)))))"

section \<open>Dates and times\<close>

text \<open>
  A \<open>datetime\<close> object holds its seven fields, as Python's does. The clock
  (\<open>datetime.now()\<close>) is an argument of every operation that reads it; an operation that
  reads it several times gets one value.
\<close>

record datetime =
  year :: nat
  month :: nat
  day :: nat
  hour :: nat
  minute :: nat
  second :: nat
  microsecond :: nat

definition is_leap :: "nat \<Rightarrow> bool" where
  "is_leap y \<longleftrightarrow> y mod 4 = 0 \<and> (y mod 100 \<noteq> 0 \<or> y mod 400 = 0)"

definition days_in_month :: "nat \<Rightarrow> nat \<Rightarrow> nat" where
  "days_in_month y m =
     (if m = 2 then (if is_leap y then 29 else 28)
      else if m = 4 \<or> m = 6 \<or> m = 9 \<or> m = 11 then 30 else 31)"

text \<open>The checks of the \<open>datetime\<close> constructor (years 1 to 9999).\<close>

definition valid_datetime :: "datetime \<Rightarrow> bool" where
  "valid_datetime d \<longleftrightarrow>
     1 \<le> year d \<and> year d \<le> 9999 \<and> 1 \<le> month d \<and> month d \<le> 12 \<and>
     1 \<le> day d \<and> day d \<le> days_in_month (year d) (month d) \<and>
     hour d < 24 \<and> minute d < 60 \<and> second d < 60 \<and> microsecond d < 1000000"

definition make_datetime ::
  "nat \<Rightarrow> nat \<Rightarrow> nat \<Rightarrow> nat \<Rightarrow> nat \<Rightarrow> nat \<Rightarrow> nat \<Rightarrow> datetime option" where
  "make_datetime y m d hh mi ss us =
     (let r = \<lparr>year = y, month = m, day = d, hour = hh, minute = mi, second = ss,
                microsecond = us\<rparr>
      in if valid_datetime r then Some r else None)"

text \<open>Comparison of two \<open>datetime\<close> objects: field by field, the year first.\<close>

fun lex_less :: "nat list \<Rightarrow> nat list \<Rightarrow> bool" where
  "lex_less (x # xs) (y # ys) = (x < y \<or> (x = y \<and> lex_less xs ys))"
| "lex_less _ _ = False"

definition dt_fields :: "datetime \<Rightarrow> nat list" where
  "dt_fields d = [year d, month d, day d, hour d, minute d, second d, microsecond d]"

definition dt_gt :: "datetime \<Rightarrow> datetime \<Rightarrow> bool" where
  "dt_gt a b = lex_less (dt_fields b) (dt_fields a)"

subsection \<open>Adding days\<close>

definition next_day :: "datetime \<Rightarrow> datetime" where
  "next_day d =
     (if day d < days_in_month (year d) (month d) then d\<lparr>day := day d + 1\<rparr>
      else if month d < 12 then d\<lparr>month := month d + 1, day := 1\<rparr>
      else d\<lparr>year := year d + 1, month := 1, day := 1\<rparr>)"

text \<open>\<open>d + timedelta(days=n)\<close>: the date \<open>n\<close> days later at the same time of day;
  \<open>OverflowError\<close> when the year leaves the range of \<open>datetime\<close>.\<close>

definition add_days :: "nat \<Rightarrow> datetime \<Rightarrow> pyexc + datetime" where
  "add_days n d =
     (let r = (next_day ^^ n) d in if year r \<le> 9999 then Inr r else Inl OverflowError)"

subsection \<open>Formatting and parsing\<close>

definition pad2 :: "nat \<Rightarrow> string" where
  "pad2 n = [digit_char (n div 10 mod 10), digit_char (n mod 10)]"

definition pad4 :: "nat \<Rightarrow> string" where
  "pad4 n = [digit_char (n div 1000 mod 10), digit_char (n div 100 mod 10),
             digit_char (n div 10 mod 10), digit_char (n mod 10)]"

text \<open>\<open>d.strftime("%Y-%m-%d")\<close> and \<open>d.strftime("%Y-%m-%d %H:%M:%S")\<close>. The year is written
  with four digits; for a year below 1000 some C libraries write fewer.\<close>

definition strftime_date :: "datetime \<Rightarrow> string" where
  "strftime_date d = pad4 (year d) @ ''-'' @ pad2 (month d) @ ''-'' @ pad2 (day d)"

definition strftime_datetime :: "datetime \<Rightarrow> string" where
  "strftime_datetime d =
     strftime_date d @ '' '' @ pad2 (hour d) @ '':'' @ pad2 (minute d) @ '':'' @ pad2 (second d)"

text \<open>
  \<open>datetime.strptime\<close> turns the format into a pattern, each directive into a group of
  alternatives, tried in order; the table below gives them as \<open>_strptime\<close> has them, an
  alternative as the list of the classes of its characters. A class written with ASCII
  digits holds these only; the digit class holds every decimal digit. The dash and the
  colon of the format stand for themselves, its blank for one or more white-space
  characters.
\<close>

definition lit :: "char \<Rightarrow> nat \<Rightarrow> bool" where
  "lit a c \<longleftrightarrow> c = of_char a"

definition rng :: "char \<Rightarrow> char \<Rightarrow> nat \<Rightarrow> bool" where
  "rng a b c \<longleftrightarrow> of_char a \<le> c \<and> c \<le> of_char b"

definition dig :: "nat \<Rightarrow> bool" where
  "dig c \<longleftrightarrow> decimal c \<noteq> None"

definition REGEX_Y :: "(nat \<Rightarrow> bool) list list" where
  "REGEX_Y = [[dig, dig, dig, dig]]"

definition REGEX_m :: "(nat \<Rightarrow> bool) list list" where
  "REGEX_m = [[lit CHR ''1'', rng CHR ''0'' CHR ''2''], [lit CHR ''0'', rng CHR ''1'' CHR ''9''],
              [rng CHR ''1'' CHR ''9'']]"

definition REGEX_d :: "(nat \<Rightarrow> bool) list list" where
  "REGEX_d = [[lit CHR ''3'', rng CHR ''0'' CHR ''1''], [rng CHR ''1'' CHR ''2'', dig],
              [lit CHR ''0'', rng CHR ''1'' CHR ''9''], [rng CHR ''1'' CHR ''9''],
              [lit CHR '' '', rng CHR ''1'' CHR ''9'']]"

definition REGEX_H :: "(nat \<Rightarrow> bool) list list" where
  "REGEX_H = [[lit CHR ''2'', rng CHR ''0'' CHR ''3''], [rng CHR ''0'' CHR ''1'', dig], [dig]]"

definition REGEX_M :: "(nat \<Rightarrow> bool) list list" where
  "REGEX_M = [[rng CHR ''0'' CHR ''5'', dig], [dig]]"

definition REGEX_S :: "(nat \<Rightarrow> bool) list list" where
  "REGEX_S = [[lit CHR ''6'', rng CHR ''0'' CHR ''1''], [rng CHR ''0'' CHR ''5'', dig], [dig]]"

text \<open>\<open>int\<close> on the text of a group: the number its digits write; the blank that a day may
  begin with is skipped.\<close>

fun int_text :: "nat \<Rightarrow> nat list \<Rightarrow> nat" where
  "int_text a [] = a"
| "int_text a (c # s) =
     (case decimal c of None \<Rightarrow> int_text a s | Some d \<Rightarrow> int_text (10 * a + d) s)"

text \<open>A group read from the text \<open>s\<close> that lies between two separators of the format, or
  after the last one: one of its alternatives has to match all of \<open>s\<close>. No alternative
  holds a dash, a colon or, but for the blank before a day, a white-space character, and
  no alternative is a proper prefix of a later one, so this is how the pattern divides
  the text.\<close>

definition group :: "(nat \<Rightarrow> bool) list list \<Rightarrow> nat list \<Rightarrow> nat option" where
  "group alts s =
     (if list_ex (\<lambda>alt. list_all2 (\<lambda>cls c. cls c) alt s) alts then Some (int_text 0 s)
      else None)"

definition not_dash :: "nat \<Rightarrow> bool" where
  "not_dash c \<longleftrightarrow> c \<noteq> of_char CHR ''-''"

definition not_colon :: "nat \<Rightarrow> bool" where
  "not_colon c \<longleftrightarrow> c \<noteq> of_char CHR '':''"

text \<open>\<open>datetime.strptime(s, "%Y-%m-%d")\<close> and \<open>datetime.strptime(s, "%Y-%m-%d %H:%M:%S")\<close>.
  The whole text has to match, and the fields go through the \<open>datetime\<close> constructor.
  Every failure is a \<open>ValueError\<close>, here \<open>None\<close>.\<close>

definition strptime_date :: "string \<Rightarrow> datetime option" where
  "strptime_date s =
     (let ys = takeWhile not_dash (code_points s); r1 = dropWhile not_dash (code_points s) in
      if r1 = [] then None else
      let ms = takeWhile not_dash (tl r1); r2 = dropWhile not_dash (tl r1) in
      if r2 = [] then None else
      (case group REGEX_Y ys of None \<Rightarrow> None | Some y \<Rightarrow>
       case group REGEX_m ms of None \<Rightarrow> None | Some m \<Rightarrow>
       case group REGEX_d (tl r2) of None \<Rightarrow> None | Some d \<Rightarrow>
         make_datetime y m d 0 0 0 0))"

definition strptime_datetime :: "string \<Rightarrow> datetime option" where
  "strptime_datetime s =
     (let ys = takeWhile not_dash (code_points s); r1 = dropWhile not_dash (code_points s) in
      if r1 = [] then None else
      let ms = takeWhile not_dash (tl r1); r2 = dropWhile not_dash (tl r1) in
      if r2 = [] then None else
      let r3 = tl r2;
          ds = (if r3 \<noteq> [] \<and> hd r3 = of_char CHR '' '' then take 2 r3
                else takeWhile (\<lambda>c. \<not> is_space c) r3);
          r4 = drop (length ds) r3;
          ws = takeWhile is_space r4;
          r5 = dropWhile is_space r4;
          hs = takeWhile not_colon r5;
          r6 = dropWhile not_colon r5 in
      if ws = [] \<or> r6 = [] then None else
      let mis = takeWhile not_colon (tl r6); r7 = dropWhile not_colon (tl r6) in
      if r7 = [] then None else
      (case group REGEX_Y ys of None \<Rightarrow> None | Some y \<Rightarrow>
       case group REGEX_m ms of None \<Rightarrow> None | Some m \<Rightarrow>
       case group REGEX_d ds of None \<Rightarrow> None | Some d \<Rightarrow>
       case group REGEX_H hs of None \<Rightarrow> None | Some hh \<Rightarrow>
       case group REGEX_M mis of None \<Rightarrow> None | Some mi \<Rightarrow>
       case group REGEX_S (tl r7) of None \<Rightarrow> None | Some ss \<Rightarrow>
         make_datetime y m d hh mi ss 0))"

section \<open>Floating-point numbers\<close>

text \<open>
  A rational number is turned into the nearest double (53 significant bits, exponents
  from \<open>-1022\<close> to \<open>1023\<close>, ties to the even significand, overflow to an infinity), which is
  what \<open>float\<close> does with a decimal text and what \<open>round\<close> does with its decimal result.
\<close>

definition pow2 :: "int \<Rightarrow> rat" where
  "pow2 e = (if 0 \<le> e then 2 ^ nat e else 1 / 2 ^ nat (- e))"

definition round_half_even :: "rat \<Rightarrow> int" where
  "round_half_even q =
     (let f = \<lfloor>q\<rfloor>; r = q - of_int f
      in if r < 1 / 2 then f else if 1 / 2 < r then f + 1 else if even f then f else f + 1)"

fun bit_length :: "nat \<Rightarrow> nat" where
  "bit_length n = (if n = 0 then 0 else Suc (bit_length (n div 2)))"

declare bit_length.simps [simp del]

text \<open>The exponent \<open>e\<close> with \<open>2 ^ e \<le> q < 2 ^ (e + 1)\<close>, for a positive \<open>q\<close>.\<close>

definition ilog2 :: "rat \<Rightarrow> int" where
  "ilog2 q =
     (let e0 = int (bit_length (nat (fst (quotient_of q))))
               - int (bit_length (nat (snd (quotient_of q))))
      in if pow2 e0 \<le> q then e0 else e0 - 1)"

definition to_double :: "rat \<Rightarrow> pyfloat" where
  "to_double q =
     (if q = 0 then Fin 0
      else
        let a = \<bar>q\<bar>;
            e = max (ilog2 a) (- 1022);
            ulp = pow2 (e - 52);
            r = of_int (round_half_even (a / ulp)) * ulp
        in if pow2 1024 \<le> r then (if 0 < q then PInf else NInf)
           else Fin (if 0 < q then r else - r))"

text \<open>\<open>round(x, 2)\<close> on a float: a value that is not finite is returned as it is; a finite
  one is written with two decimals, correctly rounded with ties to the even digit, and
  read back as a double.\<close>

definition py_round2 :: "pyfloat \<Rightarrow> pyfloat" where
  "py_round2 x =
     (case x of
        Fin q \<Rightarrow> to_double (of_int (round_half_even (q * 100)) / 100)
      | _ \<Rightarrow> x)"

text \<open>\<open>x <= 0\<close> on a float: false on \<open>nan\<close>.\<close>

definition float_le_zero :: "pyfloat \<Rightarrow> bool" where
  "float_le_zero x = (case x of Fin q \<Rightarrow> q \<le> 0 | NInf \<Rightarrow> True | _ \<Rightarrow> False)"

subsection \<open>Reading a float from text\<close>

text \<open>
  \<open>float(s)\<close> on a string. The text is first brought to ASCII: an ASCII character is kept,
  any other white-space character becomes a blank and any other decimal digit the ASCII
  digit of its value; a character of no such kind ends the buffer with a question mark,
  on which the reading below fails, so the result is a \<open>ValueError\<close>, here \<open>None\<close>. Then
  underscores are removed, each of which must stand between two digits; the white space
  of C is stripped at both ends; what is left is an optional sign followed by \<open>inf\<close>,
  \<open>infinity\<close> or \<open>nan\<close> in any case, or by a decimal numeral with an optional fraction and
  an optional exponent. Anything else is a \<open>ValueError\<close>.
\<close>

definition ascii_char :: "string \<Rightarrow> char option" where
  "ascii_char ch =
     (if code_point ch < 127 then Some (hd ch)
      else if is_space (code_point ch) then Some CHR '' ''
      else map_option digit_char (decimal (code_point ch)))"

definition c_strip :: "string \<Rightarrow> string" where
  "c_strip s = rev (dropWhile c_isspace (rev (dropWhile c_isspace s)))"

fun strip_underscores :: "char \<Rightarrow> string \<Rightarrow> string option" where
  "strip_underscores prev [] = (if prev = CHR ''_'' then None else Some [])"
| "strip_underscores prev (c # s) =
     (if c = CHR ''_'' then (if is_digit prev then strip_underscores c s else None)
      else if prev = CHR ''_'' \<and> \<not> is_digit c then None
      else map_option ((#) c) (strip_underscores c s))"

definition lower_ascii :: "char \<Rightarrow> char" where
  "lower_ascii c =
     (if 65 \<le> (of_char c :: nat) \<and> (of_char c :: nat) \<le> 90 then char_of (of_char c + 32 :: nat)
      else c)"

definition split_sign :: "string \<Rightarrow> bool \<times> string" where
  "split_sign s =
     (case s of
        [] \<Rightarrow> (False, [])
      | c # r \<Rightarrow> if c = CHR ''-'' then (True, r) else if c = CHR ''+'' then (False, r)
                 else (False, s))"

definition pow10 :: "int \<Rightarrow> rat" where
  "pow10 e = (if 0 \<le> e then 10 ^ nat e else 1 / 10 ^ nat (- e))"

definition decimal_value :: "bool \<Rightarrow> string \<Rightarrow> string \<Rightarrow> int \<Rightarrow> pyfloat" where
  "decimal_value neg ip fp ex =
     (let m = of_nat (digits_val (ip @ fp)) * pow10 (ex - int (length fp))
      in to_double (if neg then - m else m))"

definition parse_float :: "string \<Rightarrow> pyfloat option" where
  "parse_float s =
     (let neg = fst (split_sign s); r = snd (split_sign s); w = map lower_ascii r in
      if w = ''inf'' \<or> w = ''infinity'' then Some (if neg then NInf else PInf)
      else if w = ''nan'' then Some NaN
      else
        let ip = takeWhile is_digit r;
            r1 = dropWhile is_digit r;
            dot = (r1 \<noteq> [] \<and> hd r1 = CHR ''.'');
            fp = (if dot then takeWhile is_digit (tl r1) else []);
            r2 = (if dot then dropWhile is_digit (tl r1) else r1)
        in
          if ip = [] \<and> fp = [] then None
          else if r2 = [] then Some (decimal_value neg ip fp 0)
          else if hd r2 = CHR ''e'' \<or> hd r2 = CHR ''E'' then
            (let eneg = fst (split_sign (tl r2)); ed = snd (split_sign (tl r2)) in
             if ed \<noteq> [] \<and> list_all is_digit ed then
               Some (decimal_value neg ip fp
                      (if eneg then - int (digits_val ed) else int (digits_val ed)))
             else None)
          else None)"

definition py_float :: "string \<Rightarrow> pyfloat option" where
  "py_float s =
     (case those (map ascii_char (chars_of s)) of
        None \<Rightarrow> None
      | Some b \<Rightarrow>
          (case strip_underscores (CHR 0x00) b of
             None \<Rightarrow> None
           | Some t \<Rightarrow> parse_float (c_strip t)))"

subsection \<open>Replacing substrings\<close>

text \<open>\<open>s.replace(old, new)\<close> for a non-empty \<open>old\<close>, the only use in the source: the
  occurrences are replaced from the left, without overlap.\<close>

fun str_replace :: "string \<Rightarrow> string \<Rightarrow> string \<Rightarrow> string" where
  "str_replace old new [] = []"
| "str_replace old new (c # s) =
     (if old \<noteq> [] \<and> take (length old) (c # s) = old
      then new @ str_replace old new (drop (length old - 1) s)
      else c # str_replace old new s)"

text \<open>The fullwidth yen sign, U+FFE5, in UTF-8.\<close>

definition YEN :: string where
  "YEN = [CHR 0xEF, CHR 0xBF, CHR 0xA5]"

text \<open>The three replacements every ingestion path applies to the amount text.\<close>

definition clean_amount :: "string \<Rightarrow> string" where
  "clean_amount s = str_replace ''RMB'' [] (str_replace YEN [] (str_replace '','' [] s))"

section \<open>The users table and token validation\<close>

text \<open>A row of \<open>users\<close>, without the autoincrement key. The columns that may be NULL are
  options. The table is the list of its rows in insertion order.\<close>

record user_row =
  user_id :: string
  email :: string
  password_hash :: string
  token :: "string option"
  token_expires_at :: "string option"
  created_at :: "string option"
  updated_at :: "string option"

text \<open>The dictionary that \<open>verify_token\<close> returns.\<close>

record user_info =
  info_user_id :: string
  info_email :: string
  info_created_at :: "string option"
  info_updated_at :: "string option"
  token_valid :: bool
  info_token_expires_at :: "string option"

definition HARDCODED_TOKEN :: string where
  "HARDCODED_TOKEN = ''bQjfRqUpKlriby2lC8RLWBn8LbeLxgTsm5oITLp3R5M''"

definition hardcoded_info :: user_info where
  "hardcoded_info =
     \<lparr>info_user_id = ''token'', info_email = ''token@test.com'', info_created_at = None,
      info_updated_at = None, token_valid = True, info_token_expires_at = None\<rparr>"

text \<open>\<open>str(v) if v else None\<close> on a text column.\<close>

definition str_if_truthy :: "string option \<Rightarrow> string option" where
  "str_if_truthy v = (case v of None \<Rightarrow> None | Some s \<Rightarrow> if s = [] then None else Some s)"

definition row_info :: "user_row \<Rightarrow> user_info" where
  "row_info r =
     \<lparr>info_user_id = user_id r, info_email = email r,
      info_created_at = str_if_truthy (created_at r),
      info_updated_at = str_if_truthy (updated_at r),
      token_valid = True, info_token_expires_at = token_expires_at r\<rparr>"

text \<open>\<open>verify_token(token)\<close>, reading the clock and the users table. The query
  \<open>WHERE token = ?\<close> with \<open>fetchone\<close> gives the first row that holds the token.\<close>

definition verify_token :: "datetime \<Rightarrow> user_row list \<Rightarrow> string \<Rightarrow> user_info option" where
  "verify_token now us tok =
     (if tok = HARDCODED_TOKEN then Some hardcoded_info
      else
        (case find (\<lambda>r. token r = Some tok) us of
           None \<Rightarrow> None
         | Some r \<Rightarrow>
             (case token_expires_at r of
                None \<Rightarrow> Some (row_info r)
              | Some e \<Rightarrow>
                  if e = [] then Some (row_info r)
                  else
                    (case strptime_datetime e of
                       None \<Rightarrow> None
                     | Some expires_at \<Rightarrow>
                         if dt_gt now expires_at then None else Some (row_info r)))))"

text \<open>
  \<open>_hash_password\<close> is SHA-256 of the password and a salt read from the environment; it is
  the argument \<open>H\<close> of the operations that use it. \<open>generate_token\<close> draws a random token;
  the token drawn is an argument of \<open>login\<close>.
\<close>

text \<open>\<open>save_user_token(user_id, token, expires_in_days)\<close>: the new table and whether a row
  was updated.\<close>

definition save_user_token ::
  "datetime \<Rightarrow> user_row list \<Rightarrow> string \<Rightarrow> string \<Rightarrow> nat \<Rightarrow> pyexc + (user_row list \<times> bool)" where
  "save_user_token now us uid tok expires_in_days =
     (case add_days expires_in_days now of
        Inl e \<Rightarrow> Inl e
      | Inr later \<Rightarrow>
          Inr (map (\<lambda>r. if user_id r = uid
                          then r\<lparr>token := Some tok,
                                 token_expires_at := Some (strftime_datetime later),
                                 updated_at := Some (strftime_datetime now)\<rparr>
                          else r) us,
               list_ex (\<lambda>r. user_id r = uid) us))"

definition verify_user ::
  "(string \<Rightarrow> string) \<Rightarrow> user_row list \<Rightarrow> string \<Rightarrow> string \<Rightarrow> user_row option" where
  "verify_user H us em pw = find (\<lambda>r. email r = em \<and> password_hash r = H pw) us"

section \<open>The bills table\<close>

text \<open>
  A row of \<open>bills\<close>, without the autoincrement key: the seven values bound to the
  \<open>INSERT\<close>, as the table keeps them. SQLite has no \<open>nan\<close>: a float \<open>nan\<close> that is bound is
  stored as NULL. The conversions between integers, floats and texts that SQLite applies
  to a value whose type differs from the affinity of its column are not modelled.
\<close>

record bill_row =
  bill_id :: pyval
  bill_user_id :: pyval
  category :: pyval
  amount :: pyval
  date :: pyval
  description :: pyval
  nw_type :: pyval

record store =
  bills :: "bill_row list"
  users :: "user_row list"

definition dict_get :: "(string \<times> pyval) list \<Rightarrow> string \<Rightarrow> pyval \<Rightarrow> pyval" where
  "dict_get d k dflt = (case map_of d k of None \<Rightarrow> dflt | Some v \<Rightarrow> v)"

definition truthy :: "pyval \<Rightarrow> bool" where
  "truthy v =
     (case v of
        PNone \<Rightarrow> False
      | PBool b \<Rightarrow> b
      | PInt n \<Rightarrow> n \<noteq> 0
      | PFloat x \<Rightarrow> x \<noteq> Fin 0
      | PStr s \<Rightarrow> s \<noteq> []
      | PList l \<Rightarrow> l \<noteq> []
      | PDict d \<Rightarrow> d \<noteq> [])"

text \<open>What \<open>sqlite3\<close> raises on a parameter it cannot bind: a list or a dictionary is not a
  supported type (\<open>InterfaceError\<close>, named \<open>ProgrammingError\<close> from Python 3.11 on), an
  integer has to fit in 64 bits.\<close>

definition bind_error :: "pyval \<Rightarrow> pyexc option" where
  "bind_error v =
     (case v of
        PList l \<Rightarrow> Some InterfaceError
      | PDict d \<Rightarrow> Some InterfaceError
      | PInt n \<Rightarrow> if - (2 ^ 63) \<le> n \<and> n < 2 ^ 63 then None else Some OverflowError
      | _ \<Rightarrow> None)"

fun first_error :: "pyval list \<Rightarrow> pyexc option" where
  "first_error [] = None"
| "first_error (v # vs) = (case bind_error v of Some e \<Rightarrow> Some e | None \<Rightarrow> first_error vs)"

text \<open>The value a column holds after a value was bound to it.\<close>

definition stored :: "pyval \<Rightarrow> pyval" where
  "stored v = (if v = PFloat NaN then PNone else v)"

text \<open>\<open>save_bill(bill_data)\<close>. The column \<open>bill_id\<close> is \<open>UNIQUE\<close>: inserting a value that a
  row already holds raises \<open>sqlite3.IntegrityError\<close>.\<close>

definition save_bill ::
  "datetime \<Rightarrow> bill_row list \<Rightarrow> (string \<times> pyval) list \<Rightarrow> pyexc + bill_row list" where
  "save_bill now bs bill_data =
     (let uid = dict_get bill_data ''user_id'' (PStr ''anonymous'');
          date_str = dict_get bill_data ''date'' (PStr (strftime_date now));
          bid = dict_get bill_data ''bill_id'' PNone
      in if \<not> truthy bid then Inl ValueError
         else
           let bound = [bid, uid, dict_get bill_data ''category'' PNone,
                        dict_get bill_data ''amount'' PNone, date_str,
                        dict_get bill_data ''description'' (PStr []),
                        dict_get bill_data ''nw_type'' PNone];
               row = \<lparr>bill_id = stored (bound ! 0), bill_user_id = stored (bound ! 1),
                      category = stored (bound ! 2), amount = stored (bound ! 3),
                      date = stored (bound ! 4), description = stored (bound ! 5),
                      nw_type = stored (bound ! 6)\<rparr>
           in case first_error bound of
                Some e \<Rightarrow> Inl e
              | None \<Rightarrow>
                  if list_ex (\<lambda>r. bill_id r = bill_id row) bs then Inl IntegrityError
                  else Inr (bs @ [row]))"

definition get_bill_by_id :: "bill_row list \<Rightarrow> string \<Rightarrow> bill_row option" where
  "get_bill_by_id bs bid = find (\<lambda>r. bill_id r = PStr bid) bs"

text \<open>\<open>delete_bill(bill_id)\<close>: the new table and whether a row was deleted.\<close>

definition delete_bill :: "bill_row list \<Rightarrow> string \<Rightarrow> bill_row list \<times> bool" where
  "delete_bill bs bid =
     (filter (\<lambda>r. bill_id r \<noteq> PStr bid) bs, list_ex (\<lambda>r. bill_id r = PStr bid) bs)"

section \<open>The parser backends\<close>

definition CATEGORIES :: "string list" where
  "CATEGORIES =
     [[CHR 0xE9, CHR 0xA4, CHR 0x90, CHR 0xE9, CHR 0xA5, CHR 0xAE],
      [CHR 0xE8, CHR 0xB4, CHR 0xAD, CHR 0xE7, CHR 0x89, CHR 0xA9],
      [CHR 0xE4, CHR 0xBA, CHR 0xA4, CHR 0xE9, CHR 0x80, CHR 0x9A],
      [CHR 0xE4, CHR 0xBD, CHR 0x8F, CHR 0xE6, CHR 0x88, CHR 0xBF],
      [CHR 0xE4, CHR 0xBC, CHR 0x91, CHR 0xE9, CHR 0x97, CHR 0xB2, CHR 0xE5, CHR 0xA8, CHR 0xB1, CHR 0xE4, CHR 0xB9, CHR 0x90],
      [CHR 0xE5, CHR 0x8C, CHR 0xBB, CHR 0xE7, CHR 0x96, CHR 0x97, CHR 0xE5, CHR 0x81, CHR 0xA5, CHR 0xE5, CHR 0xBA, CHR 0xB7],
      [CHR 0xE5, CHR 0xAD, CHR 0xA6, CHR 0xE4, CHR 0xB9, CHR 0xA0, CHR 0xE5, CHR 0x8A, CHR 0x9E, CHR 0xE5, CHR 0x85, CHR 0xAC],
      [CHR 0xE5, CHR 0xAE, CHR 0xA0, CHR 0xE7, CHR 0x89, CHR 0xA9],
      [CHR 0xE6, CHR 0xAF, CHR 0x8D, CHR 0xE5, CHR 0xA9, CHR 0xB4],
      [CHR 0xE8, CHR 0xB5, CHR 0x84, CHR 0xE9, CHR 0x87, CHR 0x91, CHR 0xE5, CHR 0xBE, CHR 0x80, CHR 0xE6, CHR 0x9D, CHR 0xA5],
      [CHR 0xE4, CHR 0xBF, CHR 0x9D, CHR 0xE9, CHR 0x99, CHR 0xA9, CHR 0xE7, CHR 0x90, CHR 0x86, CHR 0xE8, CHR 0xB4, CHR 0xA2],
      [CHR 0xE5, CHR 0x85, CHR 0xB6, CHR 0xE4, CHR 0xBB, CHR 0x96, CHR 0xE6, CHR 0x94, CHR 0xAF, CHR 0xE5, CHR 0x87, CHR 0xBA]]"

text \<open>The two labels of \<open>nw_type\<close>.\<close>

definition NW_BASIC :: string where
  "NW_BASIC = [CHR 0xE5, CHR 0x9F, CHR 0xBA, CHR 0xE7, CHR 0xA1, CHR 0x80, CHR 0xE6, CHR 0x94, CHR 0xAF, CHR 0xE5, CHR 0x87, CHR 0xBA]"

definition NW_LEISURE :: string where
  "NW_LEISURE = [CHR 0xE5, CHR 0xA8, CHR 0xB1, CHR 0xE4, CHR 0xB9, CHR 0x90, CHR 0xE6, CHR 0x94, CHR 0xAF, CHR 0xE5, CHR 0x87, CHR 0xBA]"

text \<open>The default category of the upload paths, the last entry of \<open>CATEGORIES\<close>.\<close>

definition OTHER_EXPENSE :: string where
  "OTHER_EXPENSE = [CHR 0xE5, CHR 0x85, CHR 0xB6, CHR 0xE4, CHR 0xBB, CHR 0x96, CHR 0xE6, CHR 0x94, CHR 0xAF, CHR 0xE5, CHR 0x87, CHR 0xBA]"

text \<open>
  What the call of the external model gives: it raises (no credentials, no network;
  for the OCR path, also a failure of the OCR request), or it returns a text. The text is
  given together with what \<open>json.loads\<close> makes of it: the decoded value of a well-formed
  JSON text, or the text itself when \<open>json.loads\<close> raises.
\<close>

datatype completion =
    Call_Raises
  | Content_Json pyval
  | Content_Malformed string

text \<open>\<open>services.qwen.parse_bill_file\<close>, \<open>services.baidu_qwen.parse_bill_file\<close> (through
  \<open>qwen_struct\<close>) and \<open>services.llm.parse_bill_text\<close> end in the same four lines.\<close>

definition loads_or_raw :: "completion \<Rightarrow> pyexc + pyval" where
  "loads_or_raw c =
     (case c of
        Call_Raises \<Rightarrow> Inl BackendFailure
      | Content_Json v \<Rightarrow> Inr v
      | Content_Malformed content \<Rightarrow> Inr (PDict [(''raw'', PStr content)]))"

definition parse_qwen_file :: "completion \<Rightarrow> pyexc + pyval" where
  "parse_qwen_file c = loads_or_raw c"


definition parse_bill_text :: "string \<Rightarrow> completion \<Rightarrow> pyexc + pyval" where
  "parse_bill_text txt c = (if txt = [] \<or> strip txt = [] then Inl ValueError else loads_or_raw c)"

section \<open>The endpoints\<close>

datatype response =
    HTTPException nat
  | LoginResponse string string
  | ManualBillResponse string
  | DeleteBillResponse
  | UploadResult pyfloat
  | UploadError pyexc

text \<open>
  \<open>HTTPException n\<close> is a raised \<open>HTTPException\<close> with status code \<open>n\<close>; \<open>LoginResponse\<close>
  carries the user id and the new token; \<open>ManualBillResponse\<close> the bill id;
  \<open>UploadResult\<close> is the body with status \<open>ok\<close>, of which the stored amount is kept;
  \<open>UploadError\<close> is the body with status \<open>error\<close> that the upload paths return for any
  exception other than an \<open>HTTPException\<close>.
\<close>

definition login ::
  "(string \<Rightarrow> string) \<Rightarrow> datetime \<Rightarrow> string \<Rightarrow> store \<Rightarrow> string \<Rightarrow> string \<Rightarrow> response \<times> store" where
  "login H now new_token st em pw =
     (case verify_user H (users st) em pw of
        None \<Rightarrow> (HTTPException 401, st)
      | Some u \<Rightarrow>
          (case save_user_token now (users st) (user_id u) new_token 30 of
             Inl e \<Rightarrow> (HTTPException 500, st)
           | Inr res \<Rightarrow> (LoginResponse (user_id u) new_token, st\<lparr>users := fst res\<rparr>)))"

text \<open>The field \<open>amount\<close> of \<open>BillData\<close> is \<open>Union[str, float]\<close>.\<close>

datatype amount_in = Amount_Str string | Amount_Float pyfloat

record BillData =
  rq_bill_id :: string
  rq_category :: string
  rq_amount :: amount_in
  rq_date :: "string option"
  rq_description :: "string option"
  rq_nw_type :: "string option"

record ManualBillRequest =
  rq_user_id :: string
  rq_bill :: BillData

text \<open>The local function \<open>normalize_amount\<close> of \<open>manual_bill\<close>: \<open>float_of_amount\<close> is
  the value of \<open>num\<close>, \<open>None\<close> when \<open>float\<close> raises; \<open>Inl\<close> is the \<open>HTTPException\<close>
  that \<open>normalize_amount\<close> raises.\<close>

definition float_of_amount :: "amount_in \<Rightarrow> pyfloat option" where
  "float_of_amount val =
     (case val of
        Amount_Float x \<Rightarrow> Some x
      | Amount_Str s \<Rightarrow> py_float (clean_amount (strip s)))"

definition normalize_amount :: "amount_in \<Rightarrow> response + pyfloat" where
  "normalize_amount val =
     (case float_of_amount val of
        None \<Rightarrow> Inl (HTTPException 400)
      | Some num \<Rightarrow>
          if float_le_zero num then Inl (HTTPException 400) else Inr (py_round2 num))"

definition opt_str :: "string option \<Rightarrow> pyval" where
  "opt_str v = (case v of None \<Rightarrow> PNone | Some s \<Rightarrow> PStr s)"

definition str_truthy :: "string option \<Rightarrow> bool" where
  "str_truthy v = (case v of None \<Rightarrow> False | Some s \<Rightarrow> s \<noteq> [])"

text \<open>The dictionary \<open>bill_data\<close> that \<open>manual_bill\<close> hands to \<open>save_bill\<close>, for the
  normalized amount \<open>a\<close>.\<close>

definition manual_bill_data :: "ManualBillRequest \<Rightarrow> pyfloat \<Rightarrow> (string \<times> pyval) list" where
  "manual_bill_data request a =
     [(''user_id'', PStr (rq_user_id request)),
      (''category'', PStr (rq_category (rq_bill request))),
      (''amount'', PFloat a),
      (''date'', opt_str (rq_date (rq_bill request))),
      (''description'',
         PStr (if str_truthy (rq_description (rq_bill request))
               then the (rq_description (rq_bill request)) else [])),
      (''bill_id'', PStr (rq_bill_id (rq_bill request))),
      (''nw_type'', opt_str (rq_nw_type (rq_bill request)))]"

text \<open>\<open>manual_bill(request)\<close>. The test \<open>amount is None\<close> cannot hold for a validated
  request and is left out.\<close>

definition manual_bill :: "datetime \<Rightarrow> store \<Rightarrow> ManualBillRequest \<Rightarrow> response \<times> store" where
  "manual_bill now st request =
     (let b = rq_bill request in
      if rq_category b = [] then (HTTPException 400, st)
      else if rq_bill_id b = [] then (HTTPException 400, st)
      else if str_truthy (rq_date b) \<and> strptime_date (the (rq_date b)) = None
        then (HTTPException 400, st)
      else if str_truthy (rq_nw_type b) \<and> the (rq_nw_type b) \<notin> {NW_BASIC, NW_LEISURE}
        then (HTTPException 400, st)
      else if rq_category b \<noteq> [] \<and> CATEGORIES \<noteq> [] \<and> rq_category b \<notin> set CATEGORIES
        then (HTTPException 400, st)
      else
        (case normalize_amount (rq_amount b) of
           Inl r \<Rightarrow> (r, st)
         | Inr a \<Rightarrow>
             (case save_bill now (bills st) (manual_bill_data request a) of
                Inl e \<Rightarrow> (HTTPException 500, st)
              | Inr bs \<Rightarrow> (ManualBillResponse (rq_bill_id b), st\<lparr>bills := bs\<rparr>))))"

text \<open>\<open>delete_bill_endpoint(request)\<close> with the two fields of the request.\<close>

definition delete_bill_endpoint ::
  "datetime \<Rightarrow> store \<Rightarrow> string \<Rightarrow> string \<Rightarrow> response \<times> store" where
  "delete_bill_endpoint now st tok bid =
     (case verify_token now (users st) tok of
        None \<Rightarrow> (HTTPException 401, st)
      | Some user_info \<Rightarrow>
          (case get_bill_by_id (bills st) bid of
             None \<Rightarrow> (HTTPException 404, st)
           | Some b \<Rightarrow>
               if bill_user_id b \<noteq> PStr (info_user_id user_info) then (HTTPException 403, st)
               else
                 (let res = delete_bill (bills st) bid in
                  if \<not> snd res then (HTTPException 500, st\<lparr>bills := fst res\<rparr>)
                  else (DeleteBillResponse, st\<lparr>bills := fst res\<rparr>))))"

text \<open>
  \<open>float(str(v).replace(",", "").replace(YEN, "").replace("RMB", ""))\<close> on a decoded JSON
  value: the text of a string is cleaned and read; the text of an integer is its decimal
  numeral; the text of a float reads back as the same float; the text of \<open>None\<close>, of a
  truth value, of a list or of a dictionary is no numeral.
\<close>

definition float_of_parsed :: "pyval \<Rightarrow> pyexc + pyfloat" where
  "float_of_parsed v =
     (case v of
        PStr s \<Rightarrow> (case py_float (clean_amount s) of None \<Rightarrow> Inl ValueError | Some x \<Rightarrow> Inr x)
      | PInt n \<Rightarrow> Inr (to_double (of_int n))
      | PFloat x \<Rightarrow> Inr x
      | _ \<Rightarrow> Inl ValueError)"

text \<open>The lines the three upload paths share, from the computation of \<open>amt\<close> to the
  response. A decoded value that is not a dictionary has no method \<open>get\<close>.\<close>

definition store_parsed ::
  "datetime \<Rightarrow> store \<Rightarrow> string \<Rightarrow> string \<Rightarrow> pyval \<Rightarrow> response \<times> store" where
  "store_parsed now st uid bid parsed_json =
     (case parsed_json of
        PDict d \<Rightarrow>
          (case float_of_parsed (dict_get d ''amount'' (PStr ''0'')) of
             Inl e \<Rightarrow> (UploadError e, st)
           | Inr x \<Rightarrow>
               (let amt = py_round2 x;
                    bill_data =
                      [(''user_id'', PStr uid),
                       (''category'', dict_get d ''category'' (PStr OTHER_EXPENSE)),
                       (''amount'', PFloat amt),
                       (''date'', dict_get d ''date'' (PStr (take 10 (strftime_datetime now)))),
                       (''description'', dict_get d ''description'' (PStr [])),
                       (''bill_id'', PStr bid),
                       (''nw_type'', dict_get d ''nw_type'' PNone)]
                in case save_bill now (bills st) bill_data of
                     Inl e \<Rightarrow> (UploadError e, st)
                   | Inr bs \<Rightarrow> (UploadResult amt, st\<lparr>bills := bs\<rparr>)))
      | _ \<Rightarrow> (UploadError AttributeError, st))"

definition upload_qwen_vl ::
  "datetime \<Rightarrow> store \<Rightarrow> completion \<Rightarrow> string \<Rightarrow> string \<Rightarrow> response \<times> store" where
  "upload_qwen_vl now st c tok bid =
     (case verify_token now (users st) tok of
        None \<Rightarrow> (HTTPException 401, st)
      | Some user_info \<Rightarrow>
          (case parse_qwen_file c of
             Inl e \<Rightarrow> (UploadError e, st)
           | Inr parsed_json \<Rightarrow>
               if bid = [] then (HTTPException 400, st)
               else store_parsed now st (info_user_id user_info) bid parsed_json))"


definition upload_llm ::
  "datetime \<Rightarrow> store \<Rightarrow> completion \<Rightarrow> string \<Rightarrow> string \<Rightarrow> string \<Rightarrow> response \<times> store" where
  "upload_llm now st c txt tok bid =
     (case verify_token now (users st) tok of
        None \<Rightarrow> (HTTPException 401, st)
      | Some user_info \<Rightarrow>
          if txt = [] then (HTTPException 400, st)
          else
            (case parse_bill_text txt c of
               Inl e \<Rightarrow> (UploadError e, st)
             | Inr parsed_json \<Rightarrow>
                 if bid = [] then (HTTPException 400, st)
                 else store_parsed now st (info_user_id user_info) bid parsed_json))"

section \<open>The rounding of the specification\<close>

text \<open>Rounding to two decimal places with ties going up, as the specification words the
  rounding of amounts. The code calls \<open>round\<close>, which is \<open>py_round2\<close> above.\<close>

definition spec_round_half_up :: "rat \<Rightarrow> rat" where
  "spec_round_half_up q = of_int \<lfloor>q * 100 + 1 / 2\<rfloor> / 100"

section \<open>Sample data\<close>

text \<open>A clock reading, three users, one stored bill and a few requests, on which the
  operations are evaluated below.\<close>

definition now0 :: datetime where
  "now0 = \<lparr>year = 2026, month = 11, day = 4, hour = 10, minute = 30, second = 15,
           microsecond = 500000\<rparr>"

text \<open>A quarter of a second past the expiry that a token issued at \<open>now0\<close> receives, and
  the same second thirty days after \<open>now0\<close>.\<close>

definition now1 :: datetime where
  "now1 = \<lparr>year = 2026, month = 12, day = 4, hour = 10, minute = 30, second = 15,
           microsecond = 250000\<rparr>"

definition later0 :: datetime where
  "later0 = \<lparr>year = 2026, month = 12, day = 4, hour = 10, minute = 30, second = 15,
             microsecond = 500000\<rparr>"

definition sample_hash :: "string \<Rightarrow> string" where
  "sample_hash pw = ''h:'' @ pw"

definition alice :: user_row where
  "alice = \<lparr>user_id = ''u-alice'', email = ''a@x.com'', password_hash = ''h:p'',
     token = Some ''TA'', token_expires_at = Some ''2026-12-01 00:00:00'',
     created_at = Some ''2026-11-01 00:00:00'', updated_at = Some ''2026-11-01 00:00:00''\<rparr>"

definition bob :: user_row where
  "bob = \<lparr>user_id = ''u-bob'', email = ''b@x.com'', password_hash = ''h:q'',
     token = Some ''TB'', token_expires_at = Some ''2026-12-01 00:00:00'',
     created_at = Some ''2026-11-01 00:00:00'', updated_at = Some ''2026-11-01 00:00:00''\<rparr>"

definition carol :: user_row where
  "carol = \<lparr>user_id = ''u-carol'', email = ''c@x.com'', password_hash = ''h:r'',
     token = Some ''TC'', token_expires_at = None, created_at = None, updated_at = None\<rparr>"

definition bill1 :: bill_row where
  "bill1 = \<lparr>bill_id = PStr ''b1'', bill_user_id = PStr ''u-alice'',
     category = PStr OTHER_EXPENSE, amount = PFloat (Fin 5), date = PStr ''2026-11-01'',
     description = PStr [], nw_type = PNone\<rparr>"

text \<open>Two users that hold the same token, which the table admits (the column \<open>token\<close> has no
  \<open>UNIQUE\<close> constraint): the first with an expiry that lies before \<open>now0\<close>, the second with
  none.\<close>

definition dave :: user_row where
  "dave = \<lparr>user_id = ''u-dave'', email = ''d@x.com'', password_hash = ''h:s'',
     token = Some ''TD'', token_expires_at = Some ''2026-11-01 00:00:00'',
     created_at = Some ''2026-10-01 00:00:00'', updated_at = Some ''2026-10-02 00:00:00''\<rparr>"

definition erin :: user_row where
  "erin = \<lparr>user_id = ''u-erin'', email = ''e@x.com'', password_hash = ''h:t'',
     token = Some ''TD'', token_expires_at = None, created_at = None, updated_at = None\<rparr>"

definition st0 :: store where
  "st0 = \<lparr>bills = [bill1], users = [alice, bob, carol]\<rparr>"

definition empty_store :: store where
  "empty_store = \<lparr>bills = [], users = []\<rparr>"

text \<open>A manual entry with amount \<open>12.345\<close> and no date, one with amount \<open>0.125\<close>, and one
  with amount \<open>nan\<close>.\<close>

definition req1 :: ManualBillRequest where
  "req1 = \<lparr>rq_user_id = ''nobody'',
     rq_bill = \<lparr>rq_bill_id = ''b1'', rq_category = OTHER_EXPENSE,
                rq_amount = Amount_Str ''12.345'', rq_date = None, rq_description = None,
                rq_nw_type = None\<rparr>\<rparr>"

definition req2 :: ManualBillRequest where
  "req2 = \<lparr>rq_user_id = ''u-alice'',
     rq_bill = \<lparr>rq_bill_id = ''b2'', rq_category = OTHER_EXPENSE,
                rq_amount = Amount_Str ''0.125'', rq_date = Some ''2026-11-03'',
                rq_description = Some ''tea'', rq_nw_type = None\<rparr>\<rparr>"

definition req3 :: ManualBillRequest where
  "req3 = \<lparr>rq_user_id = ''u-alice'',
     rq_bill = \<lparr>rq_bill_id = ''b3'', rq_category = OTHER_EXPENSE,
                rq_amount = Amount_Str ''nan'', rq_date = Some ''2026-11-03'',
                rq_description = None, rq_nw_type = None\<rparr>\<rparr>"

section \<open>Auxiliary facts\<close>

lemma pow2_powi: "pow2 e = 2 powi e"
  by (simp add: pow2_def power_int_def field_simps)

lemma pow2_pos: "0 < pow2 e"
  by (simp add: pow2_powi)

lemma pow2_strict_mono: "a < b \<Longrightarrow> pow2 a < pow2 b"
  by (simp add: pow2_powi power_int_strict_increasing)

lemma pow2_mono: "a \<le> b \<Longrightarrow> pow2 a \<le> pow2 b"
  by (simp add: pow2_powi power_int_increasing)

lemma bit_length_pos: "0 < n \<Longrightarrow> bit_length n = Suc (bit_length (n div 2))"
  by (subst bit_length.simps) simp

lemma bit_length_bounds: "0 < n \<Longrightarrow> 2 ^ (bit_length n - 1) \<le> n \<and> n < 2 ^ bit_length n"
proof (induction n rule: bit_length.induct)
  case (1 n)
  show ?case
  proof (cases "n div 2 = 0")
    case True
    with 1(2) have n1: "n = 1" by (auto simp: div_eq_0_iff)
    have "bit_length 1 = Suc (bit_length 0)" using bit_length_pos[of 1] by simp
    moreover have "bit_length 0 = 0" by (subst bit_length.simps) simp
    ultimately show ?thesis using n1 by simp
  next
    case False
    with 1 have ih: "2 ^ (bit_length (n div 2) - 1) \<le> n div 2 \<and> n div 2 < 2 ^ bit_length (n div 2)"
      by simp
    from False have "0 < n div 2" by simp
    from bit_length_pos[OF this] obtain k where k: "bit_length (n div 2) = Suc k" by blast
    have bl: "bit_length n = Suc (Suc k)" using bit_length_pos[OF 1(2)] k by simp
    from ih k have "2 * 2 ^ k \<le> n" "n < 2 * 2 ^ Suc k" by auto
    then show ?thesis by (simp add: bl)
  qed
qed

lemma pow2_diff_nat: "pow2 (int a - int b) = 2 ^ a / 2 ^ b"
  by (simp add: pow2_powi power_int_diff)

lemma ilog2_bounds:
  assumes "0 < q"
  shows "pow2 (ilog2 q) \<le> q \<and> q < pow2 (ilog2 q + 1)"
proof -
  obtain n d where nd: "quotient_of q = (n, d)" by (cases "quotient_of q")
  have dpos: "0 < d" using quotient_of_denom_pos[OF nd] .
  have q: "q = of_int n / of_int d" using quotient_of_div[OF nd] .
  have npos: "0 < n" using assms q dpos by (simp add: zero_less_divide_iff)
  define bn where "bn = bit_length (nat n)"
  define bd where "bd = bit_length (nat d)"
  have n_b: "2 ^ (bn - 1) \<le> nat n" "nat n < 2 ^ bn"
    using bit_length_bounds[of "nat n"] npos by (auto simp: bn_def)
  have d_b: "2 ^ (bd - 1) \<le> nat d" "nat d < 2 ^ bd"
    using bit_length_bounds[of "nat d"] dpos by (auto simp: bd_def)
  have bpos: "0 < bn" "0 < bd"
    using n_b(2) d_b(2) npos dpos by (auto intro!: Nat.gr0I)
  have n_eq: "(of_int n :: rat) = of_nat (nat n)" using npos by simp
  have d_eq: "(of_int d :: rat) = of_nat (nat d)" using dpos by simp
  have nr: "(2::rat) ^ (bn - 1) \<le> of_int n" "of_int n < (2::rat) ^ bn"
    unfolding n_eq using n_b
    by (metis of_nat_le_iff of_nat_numeral of_nat_power, metis of_nat_less_iff of_nat_numeral of_nat_power)
  have dr: "(2::rat) ^ (bd - 1) \<le> of_int d" "of_int d < (2::rat) ^ bd"
    unfolding d_eq using d_b
    by (metis of_nat_le_iff of_nat_numeral of_nat_power, metis of_nat_less_iff of_nat_numeral of_nat_power)
  have e1: "int bn - int bd + 1 = int bn - int (bd - 1)" using bpos by simp
  have e2: "int bn - int bd - 1 = int (bn - 1) - int bd" using bpos by simp
  have up: "q < pow2 (int bn - int bd + 1)"
    unfolding e1 pow2_diff_nat q
    by (rule frac_less) (use nr dr npos in auto)
  have lo: "pow2 (int bn - int bd - 1) \<le> q"
    unfolding e2 pow2_diff_nat q
    by (rule frac_le) (use nr dr npos dpos in auto)
  have il: "ilog2 q = (if pow2 (int bn - int bd) \<le> q then int bn - int bd else int bn - int bd - 1)"
    by (simp add: ilog2_def nd bn_def bd_def Let_def)
  show ?thesis using up lo il by (auto simp: not_le)
qed
lemma ilog2_unique:
  assumes "0 < q" "pow2 e \<le> q" "q < pow2 (e + 1)"
  shows "ilog2 q = e"
proof (rule ccontr)
  assume ne: "ilog2 q \<noteq> e"
  note b = ilog2_bounds[OF assms(1)]
  show False
  proof (cases "ilog2 q < e")
    case True
    then have "pow2 (ilog2 q + 1) \<le> pow2 e" by (intro pow2_mono) simp
    with b assms show False by simp
  next
    case False
    with ne have "e + 1 \<le> ilog2 q" by simp
    then have "pow2 (e + 1) \<le> pow2 (ilog2 q)" by (rule pow2_mono)
    with b assms show False by simp
  qed
qed


lemma to_double_eval:
  assumes "q \<noteq> 0" "pow2 e \<le> \<bar>q\<bar>" "\<bar>q\<bar> < pow2 (e + 1)"
  shows "to_double q =
     (let ulp = pow2 (max e (- 1022) - 52);
          r = of_int (round_half_even (\<bar>q\<bar> / ulp)) * ulp
      in if pow2 1024 \<le> r then (if 0 < q then PInf else NInf)
         else Fin (if 0 < q then r else - r))"
proof -
  have "0 < \<bar>q\<bar>" using assms(1) by simp
  then have il: "ilog2 \<bar>q\<bar> = e" using assms(2,3) by (rule ilog2_unique)
  show ?thesis unfolding to_double_def Let_def il
    by (simp only: assms(1) if_False)
qed

lemma floor_rat_numeral_div: "\<lfloor>(numeral a :: rat) / numeral b\<rfloor> = numeral a div numeral b"
  by (metis floor_divide_of_int_eq of_int_numeral)

lemmas float_eval = pow2_def round_half_even_def Let_def floor_rat_numeral_div

lemma chars_of_Nil: "chars_of [] = []"
  by (simp add: chars_of.simps)

lemma chars_of_Cons:
  "chars_of (c # s) = take (seq_len c) (c # s) # chars_of (drop (seq_len c) (c # s))"
  by (subst chars_of.simps) simp

lemmas utf8_eval = chars_of_Nil chars_of_Cons seq_len_def code_point_def code_points_def

lemmas text_eval = py_float_def ascii_char_def utf8_eval c_strip_def c_isspace_def strip_def
  is_space_def decimal_def DIGIT_ZEROS_def parse_float_def split_sign_def
  lower_ascii_def is_digit_def decimal_value_def digits_val_def digit_val_def pow10_def
  clean_amount_def YEN_def digit_char_def

lemma find_filter_neg: "find P (filter (\<lambda>x. \<not> P x) xs) = None"
  by (induction xs) auto

lemma find_sole_holder:
  assumes "r \<in> set us" "P r" "\<And>r'. r' \<in> set us \<Longrightarrow> P r' \<Longrightarrow> r' = r"
  shows "find P us = Some r"
  using assms(1,3)
proof (induction us)
  case Nil
  then show ?case by simp
next
  case (Cons a us)
  show ?case
  proof (cases "P a")
    case True
    then have "a = r" using Cons.prems(2) [of a] by simp
    then show ?thesis using True by simp
  next
    case False
    then have "a \<noteq> r" using assms(2) by blast
    then have "r \<in> set us" using Cons.prems(1) by simp
    then have "find P us = Some r"
      using Cons.IH Cons.prems(2) by simp
    then show ?thesis using False by simp
  qed
qed

lemma find_Some_list_ex: "find P xs = Some x \<Longrightarrow> list_ex P xs"
  by (induction xs) (auto split: if_splits)

lemmas date_eval = strptime_datetime_def strptime_date_def not_dash_def not_colon_def
  group_def REGEX_Y_def REGEX_m_def REGEX_d_def REGEX_H_def REGEX_M_def REGEX_S_def
  lit_def rng_def dig_def decimal_def DIGIT_ZEROS_def is_space_def utf8_eval
  make_datetime_def valid_datetime_def
  days_in_month_def is_leap_def dt_gt_def dt_fields_def strftime_datetime_def
  strftime_date_def pad2_def pad4_def digit_char_def Let_def

lemmas sample_defs = now0_def alice_def bob_def carol_def dave_def erin_def bill1_def st0_def
  empty_store_def req1_def req2_def req3_def sample_hash_def

lemmas store_eval = save_bill_def stored_def dict_get_def truthy_def bind_error_def
  get_bill_by_id_def delete_bill_def opt_str_def str_truthy_def
lemma verify_bob: "verify_token now0 (users st0) ''TB'' = Some (row_info bob)"
  by (simp add: verify_token_def HARDCODED_TOKEN_def sample_defs date_eval text_eval)
lemma verify_alice: "verify_token now0 (users st0) ''TA'' = Some (row_info alice)"
  by (simp add: verify_token_def HARDCODED_TOKEN_def sample_defs date_eval text_eval)
lemma verify_carol: "verify_token now0 (users st0) ''TC'' = Some (row_info carol)"
  by (simp add: verify_token_def HARDCODED_TOKEN_def sample_defs date_eval text_eval)

lemma to_double_12345: "to_double (2469 / 200) = Fin (6949617174986097 / 562949953421312)"
  by (subst to_double_eval[where e=3]) (simp_all add: float_eval)

lemma to_double_1235: "to_double (247 / 20) = Fin (6952431924753203 / 562949953421312)"
  by (subst to_double_eval[where e=3]) (simp_all add: float_eval)

lemma float_of_12345:
  "float_of_amount (Amount_Str ''12.345'') = Some (Fin (6949617174986097 / 562949953421312))"
  by (simp add: float_of_amount_def text_eval to_double_12345)

lemma round_12345:
  "py_round2 (Fin (6949617174986097 / 562949953421312)) = Fin (6952431924753203 / 562949953421312)"
  by (simp add: py_round2_def float_eval to_double_1235)

lemma normalize_12345:
  "normalize_amount (Amount_Str ''12.345'') = Inr (Fin (6952431924753203 / 562949953421312))"
  by (simp add: normalize_amount_def float_of_12345 round_12345 float_le_zero_def)

lemma manual_req1:
  "manual_bill now0 empty_store req1 =
     (ManualBillResponse ''b1'',
      \<lparr>bills = [\<lparr>bill_id = PStr ''b1'', bill_user_id = PStr ''nobody'',
                  category = PStr OTHER_EXPENSE,
                  amount = PFloat (Fin (6952431924753203 / 562949953421312)),
                  date = PNone, description = PStr [], nw_type = PNone\<rparr>],
       users = []\<rparr>)"
  by (simp add: manual_bill_def manual_bill_data_def req1_def empty_store_def normalize_12345 store_eval
      CATEGORIES_def OTHER_EXPENSE_def)

lemma to_double_minus5: "to_double (- 5) = Fin (- 5)"
  by (subst to_double_eval[where e=2]) (simp_all add: float_eval)

lemma float_of_parsed_minus5: "float_of_parsed (PStr ''-5'') = Inr (Fin (- 5))"
  by (simp add: float_of_parsed_def text_eval to_double_minus5)

lemma round_minus5: "py_round2 (Fin (- 5)) = Fin (- 5)"
  by (simp add: py_round2_def float_eval to_double_minus5)

lemma float_of_parsed_zero: "float_of_parsed (PStr ''0'') = Inr (Fin 0)"
  by (simp add: float_of_parsed_def text_eval to_double_def)

lemma round_zero: "py_round2 (Fin 0) = Fin 0"
  by (simp add: py_round2_def float_eval to_double_def)

lemma today0: "take 10 (strftime_datetime now0) = ''2026-11-04''"
  by (simp add: date_eval now0_def)

lemma round_half_even_near: "\<bar>of_int (round_half_even y) - y\<bar> \<le> 1 / 2"
proof -
  have "of_int \<lfloor>y\<rfloor> \<le> y" "y < of_int \<lfloor>y\<rfloor> + 1" by linarith+
  then show ?thesis by (auto simp: round_half_even_def Let_def)
qed

lemma round_half_even_tie:
  assumes "\<bar>of_int (round_half_even y) - y\<bar> = 1 / 2"
  shows "even (round_half_even y)"
proof -
  have "of_int \<lfloor>y\<rfloor> \<le> y" "y < of_int \<lfloor>y\<rfloor> + 1" by linarith+
  then show ?thesis using assms
    by (auto simp: round_half_even_def Let_def split: if_splits)
qed

lemma stored_simps [simp]:
  "stored (PStr s) = PStr s" "stored PNone = PNone"
  "stored (PFloat x) = (if x = NaN then PNone else PFloat x)"
  by (simp_all add: stored_def)

lemma save_bill_duplicate:
  assumes "list_ex (\<lambda>r. bill_id r = PStr bid) bs"
    and "dict_get bill_data ''bill_id'' PNone = PStr bid"
  shows "\<exists>e. save_bill now bs bill_data = Inl e"
  using assms by (auto simp: save_bill_def Let_def split: option.splits)

lemma save_bill_appends:
  assumes "save_bill now bs bill_data = Inr bs'"
  shows "\<exists>row. bs' = bs @ [row] \<and> bill_id row = stored (dict_get bill_data ''bill_id'' PNone)
           \<and> amount row = stored (dict_get bill_data ''amount'' PNone)"
  using assms by (auto simp: save_bill_def Let_def split: option.splits if_splits)

lemma normalize_amount_Inl: "normalize_amount v = Inl r \<Longrightarrow> r = HTTPException 400"
  by (auto simp: normalize_amount_def split: option.splits if_splits)

lemma normalize_amount_Inr:
  "normalize_amount v = Inr a \<Longrightarrow>
     \<exists>x. float_of_amount v = Some x \<and> \<not> float_le_zero x \<and> a = py_round2 x"
  by (auto simp: normalize_amount_def split: option.splits if_splits)

lemma manual_bill_ok:
  assumes "manual_bill now st request = (ManualBillResponse b, st1)"
  shows "\<exists>a bs. b = rq_bill_id (rq_bill request) \<and> b \<noteq> []
           \<and> normalize_amount (rq_amount (rq_bill request)) = Inr a
           \<and> save_bill now (bills st) (manual_bill_data request a) = Inr bs
           \<and> st1 = st\<lparr>bills := bs\<rparr>
           \<and> (\<forall>now' st'. manual_bill now' st' request =
                 (case save_bill now' (bills st') (manual_bill_data request a) of
                    Inl e \<Rightarrow> (HTTPException 500, st')
                  | Inr bs' \<Rightarrow> (ManualBillResponse b, st'\<lparr>bills := bs'\<rparr>)))"
  using assms unfolding manual_bill_def Let_def
  by (auto split: if_splits sum.splits dest: normalize_amount_Inl)

lemma manual_bill_data_get [simp]:
  "dict_get (manual_bill_data request a) ''bill_id'' PNone = PStr (rq_bill_id (rq_bill request))"
  "dict_get (manual_bill_data request a) ''amount'' PNone = PFloat a"
  by (simp_all add: manual_bill_data_def dict_get_def)

lemma manual_bill_duplicate:
  assumes "list_ex (\<lambda>r. bill_id r = PStr (rq_bill_id (rq_bill request))) (bills st)"
  shows "snd (manual_bill now st request) = st
       \<and> (fst (manual_bill now st request) = HTTPException 400
          \<or> fst (manual_bill now st request) = HTTPException 500)"
proof -
  have "\<exists>e. save_bill now (bills st) (manual_bill_data request a) = Inl e" for a
    using assms by (intro save_bill_duplicate) simp_all
  then show ?thesis
    unfolding manual_bill_def Let_def
    by (auto split: sum.splits dest: normalize_amount_Inl) (metis Inl_Inr_False)+
qed

lemma to_double_3_25: "to_double (3 / 25) = Fin (1080863910568919 / 9007199254740992)"
  by (subst to_double_eval[where e="-4"]) (simp_all add: float_eval)

lemma to_double_13_100: "to_double (13 / 100) = Fin (1170935903116329 / 9007199254740992)"
  by (subst to_double_eval[where e="-3"]) (simp_all add: float_eval)

lemma to_double_1_8: "to_double (1 / 8) = Fin (1 / 8)"
  by (subst to_double_eval[where e="-3"]) (simp_all add: float_eval)

lemma float_of_0125: "float_of_amount (Amount_Str ''0.125'') = Some (Fin (1 / 8))"
  by (simp add: float_of_amount_def text_eval to_double_1_8)

lemma normalize_0125:
  "normalize_amount (Amount_Str ''0.125'') = Inr (Fin (1080863910568919 / 9007199254740992))"
  by (simp add: normalize_amount_def float_of_0125 float_le_zero_def py_round2_def float_eval
      to_double_3_25)

lemma manual_req2:
  "manual_bill now0 empty_store req2 =
     (ManualBillResponse ''b2'',
      \<lparr>bills = [\<lparr>bill_id = PStr ''b2'', bill_user_id = PStr ''u-alice'',
                  category = PStr OTHER_EXPENSE,
                  amount = PFloat (Fin (1080863910568919 / 9007199254740992)),
                  date = PStr ''2026-11-03'', description = PStr ''tea'', nw_type = PNone\<rparr>],
       users = []\<rparr>)"
  by (simp add: manual_bill_def manual_bill_data_def req2_def empty_store_def normalize_0125
      store_eval CATEGORIES_def OTHER_EXPENSE_def date_eval text_eval)

lemma manual_req3:
  "manual_bill now0 empty_store req3 =
     (ManualBillResponse ''b3'',
      \<lparr>bills = [\<lparr>bill_id = PStr ''b3'', bill_user_id = PStr ''u-alice'',
                  category = PStr OTHER_EXPENSE, amount = PNone,
                  date = PStr ''2026-11-03'', description = PStr [], nw_type = PNone\<rparr>],
       users = []\<rparr>)"
  by (simp add: manual_bill_def manual_bill_data_def req3_def empty_store_def normalize_amount_def
      float_of_amount_def float_le_zero_def py_round2_def
      store_eval CATEGORIES_def OTHER_EXPENSE_def date_eval text_eval)

text \<open>Readings of the library functions on texts with characters outside ASCII: the
  ideographic space U+3000, the no-break space U+00A0, the fullwidth digits from U+FF10,
  the Arabic-Indic digits from U+0660, and the separator 28.\<close>

lemma strip_samples:
  "strip ([CHR 0xE3, CHR 0x80, CHR 0x80] @ '' a b'' @ [CHR 0x1C, CHR 0xC2, CHR 0xA0]) = ''a b''"
  "strip ('','' @ [CHR 0x1C] @ ''12'') = '','' @ [CHR 0x1C] @ ''12''"
  by (simp_all add: utf8_eval strip_def is_space_def)

lemma float_samples:
  "py_float ([CHR 0x1C] @ ''12'') = None"
  "float_of_amount (Amount_Str ('','' @ [CHR 0x1C] @ ''12'')) = None"
  "float_of_amount (Amount_Str ([CHR 0x1C] @ ''12'')) = Some (to_double 12)"
  "py_float [CHR 0xEF, CHR 0xBC, CHR 0x91, CHR 0xEF, CHR 0xBC, CHR 0x92] = Some (to_double 12)"
  "py_float [CHR 0xD9, CHR 0xA1, CHR 0xD9, CHR 0xA2] = Some (to_double 12)"
  "py_float ([CHR 0xE3, CHR 0x80, CHR 0x80] @ ''12 '') = Some (to_double 12)"
  "py_float (''1'' @ [CHR 0xE3, CHR 0x80, CHR 0x80] @ ''2'') = None"
  "py_float (''12'' @ YEN) = None"
  "py_float '' 1_0 '' = Some (to_double 10)"
  "py_float ''1_ '' = None"
  by (simp_all add: float_of_amount_def text_eval)

lemma strptime_samples:
  "strptime_date ([CHR 0xEF, CHR 0xBC, CHR 0x92] @ ''024-01-05'')
     = Some \<lparr>year = 2024, month = 1, day = 5, hour = 0, minute = 0, second = 0,
             microsecond = 0\<rparr>"
  "strptime_date (''2024-'' @ [CHR 0xEF, CHR 0xBC, CHR 0x90] @ ''1-05'') = None"
  "strptime_date (''2024-01-1'' @ [CHR 0xEF, CHR 0xBC, CHR 0x95])
     = Some \<lparr>year = 2024, month = 1, day = 15, hour = 0, minute = 0, second = 0,
             microsecond = 0\<rparr>"
  "strptime_date ''2024-01-05 '' = None"
  "strptime_date ''2024-1- 5'' \<noteq> None"
  "strptime_date ''2024-02-30'' = None"
  "strptime_datetime (''2024-01-05'' @ [CHR 0xE3, CHR 0x80, CHR 0x80, CHR 0x1C] @ ''1''
       @ [CHR 0xEF, CHR 0xBC, CHR 0x92] @ '':0:59'')
     = Some \<lparr>year = 2024, month = 1, day = 5, hour = 12, minute = 0, second = 59,
             microsecond = 0\<rparr>"
  "strptime_datetime ''2024-01-05 12:00:60'' = None"
  by (simp_all add: date_eval)

lemma chars_of_ascii:
  "list_all (\<lambda>c. (of_char c :: nat) < 128) s \<Longrightarrow> chars_of s = map (\<lambda>c. [c]) s"
  by (induction s) (simp_all add: chars_of_Nil chars_of_Cons seq_len_def)

lemma code_points_ascii:
  "list_all (\<lambda>c. (of_char c :: nat) < 128) s \<Longrightarrow> code_points s = map of_char s"
  by (induction s) (simp_all add: code_points_def chars_of_ascii code_point_def seq_len_def)

lemma digit_char_props:
  assumes "k < 10"
  shows "of_char (digit_char k) = (48::nat) + k" "decimal (48 + k) = Some k"
proof -
  from assms have "k = 0 \<or> k = 1 \<or> k = 2 \<or> k = 3 \<or> k = 4 \<or> k = 5 \<or> k = 6 \<or> k = 7 \<or> k = 8 \<or> k = 9"
    by arith
  then show "of_char (digit_char k) = (48::nat) + k"
    by (auto simp: digit_char_def)
  show "decimal (48 + k) = Some k"
    using assms by (simp add: decimal_def DIGIT_ZEROS_def)
qed

lemma ascii_digit_not_sep:
  assumes "rng CHR ''0'' CHR ''9'' c"
  shows "not_dash c" "not_colon c" "\<not> is_space c" "c \<noteq> 32" "c \<noteq> of_char CHR '' ''"
  using assms by (auto simp: rng_def not_dash_def not_colon_def is_space_def)

lemma pad_ascii:
  "list_all (\<lambda>c. (of_char c :: nat) < 128) (pad2 n)"
  "list_all (\<lambda>c. (of_char c :: nat) < 128) (pad4 n)"
proof -
  have "(of_char (digit_char (k mod 10)) :: nat) < 128" for k
    by (simp add: digit_char_props)
  then show "list_all (\<lambda>c. (of_char c :: nat) < 128) (pad2 n)"
    "list_all (\<lambda>c. (of_char c :: nat) < 128) (pad4 n)"
    by (simp_all add: pad2_def pad4_def)
qed

lemma mod10_le: "(k::nat) mod 10 \<le> 9"
  using mod_less_divisor [of 10 k] by linarith

lemma pad2_code:
  "code_points (pad2 n) = [48 + n div 10 mod 10, 48 + n mod 10]"
  "list_all (rng CHR ''0'' CHR ''9'') (code_points (pad2 n))"
  by (simp_all add: code_points_ascii pad_ascii) (simp_all add: pad2_def digit_char_props rng_def mod10_le)

lemma pad4_code:
  "code_points (pad4 n)
     = [48 + n div 1000 mod 10, 48 + n div 100 mod 10, 48 + n div 10 mod 10, 48 + n mod 10]"
  "list_all (rng CHR ''0'' CHR ''9'') (code_points (pad4 n))"
  by (simp_all add: code_points_ascii pad_ascii) (simp_all add: pad4_def digit_char_props rng_def mod10_le)

lemma int_text_two:
  assumes "a < 10" "b < 10"
  shows "int_text 0 [48 + a, 48 + b] = 10 * a + b"
  using assms by (simp add: digit_char_props)

lemma digits4:
  assumes "n < 10000"
  shows "1000 * (n div 1000) + 100 * (n div 100 mod 10) + 10 * (n div 10 mod 10) + n mod 10 = (n::nat)"
proof -
  define x where "x = n div 10"
  define y where "y = x div 10"
  define z where "z = y div 10"
  define a where "a = n mod 10"
  define b where "b = x mod 10"
  define c where "c = y mod 10"
  have e: "n div 100 = y" "n div 1000 = z" "n div 10 = x"
    by (simp_all add: x_def y_def z_def div_mult2_eq [symmetric])
  have "n = 10 * x + a" "x = 10 * y + b" "y = 10 * z + c"
    by (simp_all add: x_def y_def z_def a_def b_def c_def)
  then show ?thesis unfolding e a_def [symmetric] b_def [symmetric] c_def [symmetric]
    by simp
qed

lemma digits2:
  assumes "n < 100"
  shows "10 * (n div 10 mod 10) + n mod 10 = (n::nat)"
proof -
  have "n div 10 < 10" using assms by simp
  then show ?thesis by simp
qed

lemma group_Y:
  assumes "n < 10000"
  shows "group REGEX_Y (code_points (pad4 n)) = Some n"
proof -
  define a where "a = n div 1000 mod 10"
  define b where "b = n div 100 mod 10"
  define c where "c = n div 10 mod 10"
  define e where "e = n mod 10"
  have lt: "a < 10" "b < 10" "c < 10" "e < 10"
    by (simp_all add: a_def b_def c_def e_def)
  have "n div 1000 < 10" using assms by simp
  then have "n div 1000 mod 10 = n div 1000" by simp
  then have n: "1000 * a + 100 * b + 10 * c + e = n"
    using digits4 [OF assms] by (simp add: a_def b_def c_def e_def)
  have p: "code_points (pad4 n) = [48 + a, 48 + b, 48 + c, 48 + e]"
    by (simp add: pad4_code a_def b_def c_def e_def)
  show ?thesis
    unfolding p group_def REGEX_Y_def using lt n by (simp add: dig_def digit_char_props)
qed

lemma group_two:
  assumes "a < 10" "b < 10"
  shows "1 \<le> 10 * a + b \<Longrightarrow> 10 * a + b \<le> 12 \<Longrightarrow> group REGEX_m [48 + a, 48 + b] = Some (10 * a + b)"
    "1 \<le> 10 * a + b \<Longrightarrow> 10 * a + b \<le> 31 \<Longrightarrow> group REGEX_d [48 + a, 48 + b] = Some (10 * a + b)"
    "10 * a + b < 24 \<Longrightarrow> group REGEX_H [48 + a, 48 + b] = Some (10 * a + b)"
    "10 * a + b < 60 \<Longrightarrow> group REGEX_M [48 + a, 48 + b] = Some (10 * a + b)"
    "10 * a + b < 60 \<Longrightarrow> group REGEX_S [48 + a, 48 + b] = Some (10 * a + b)"
proof -
  have d: "dig (48 + b)" "decimal (48 + a) = Some a" "decimal (48 + b) = Some b"
    using assms by (simp_all add: dig_def digit_char_props)
  show "1 \<le> 10 * a + b \<Longrightarrow> 10 * a + b \<le> 12 \<Longrightarrow> group REGEX_m [48 + a, 48 + b] = Some (10 * a + b)"
    unfolding group_def REGEX_m_def using assms by (simp add: lit_def rng_def d; arith)
  show "1 \<le> 10 * a + b \<Longrightarrow> 10 * a + b \<le> 31 \<Longrightarrow> group REGEX_d [48 + a, 48 + b] = Some (10 * a + b)"
    unfolding group_def REGEX_d_def using assms by (simp add: lit_def rng_def d; arith)
  show "10 * a + b < 24 \<Longrightarrow> group REGEX_H [48 + a, 48 + b] = Some (10 * a + b)"
    unfolding group_def REGEX_H_def using assms by (simp add: lit_def rng_def d; arith)
  show "10 * a + b < 60 \<Longrightarrow> group REGEX_M [48 + a, 48 + b] = Some (10 * a + b)"
    unfolding group_def REGEX_M_def using assms by (simp add: lit_def rng_def d; arith)
  show "10 * a + b < 60 \<Longrightarrow> group REGEX_S [48 + a, 48 + b] = Some (10 * a + b)"
    unfolding group_def REGEX_S_def using assms by (simp add: lit_def rng_def d; arith)
qed

lemma group_pad2:
  "1 \<le> n \<Longrightarrow> n \<le> 12 \<Longrightarrow> group REGEX_m (code_points (pad2 n)) = Some n"
  "1 \<le> n \<Longrightarrow> n \<le> 31 \<Longrightarrow> group REGEX_d (code_points (pad2 n)) = Some n"
  "n < 24 \<Longrightarrow> group REGEX_H (code_points (pad2 n)) = Some n"
  "n < 60 \<Longrightarrow> group REGEX_M (code_points (pad2 n)) = Some n"
  "n < 60 \<Longrightarrow> group REGEX_S (code_points (pad2 n)) = Some n"
  using group_two [of "n div 10 mod 10" "n mod 10"] digits2 [of n]
  by (simp_all add: pad2_code)

lemma takeWhile_digits:
  assumes "list_all (rng CHR ''0'' CHR ''9'') ds"
  shows "takeWhile not_dash (ds @ 45 # rest) = ds"
    "dropWhile not_dash (ds @ 45 # rest) = 45 # rest"
    "takeWhile not_colon (ds @ 58 # rest) = ds"
    "dropWhile not_colon (ds @ 58 # rest) = 58 # rest"
    "takeWhile (\<lambda>c. \<not> is_space c) (ds @ 32 # rest) = ds"
proof -
  have a: "not_dash x" "not_colon x" "\<not> is_space x" if "x \<in> set ds" for x
    using assms that by (simp_all add: list_all_iff ascii_digit_not_sep)
  have b: "\<not> not_dash 45" "\<not> not_colon 58" "is_space 32"
    by (simp_all add: not_dash_def not_colon_def is_space_def)
  show "takeWhile not_dash (ds @ 45 # rest) = ds"
    "dropWhile not_dash (ds @ 45 # rest) = 45 # rest"
    "takeWhile not_colon (ds @ 58 # rest) = ds"
    "dropWhile not_colon (ds @ 58 # rest) = 58 # rest"
    "takeWhile (\<lambda>c. \<not> is_space c) (ds @ 32 # rest) = ds"
    by (simp_all add: takeWhile_append2 dropWhile_append2 a b)
qed

lemma strptime_shape:
  assumes "list_all (rng CHR ''0'' CHR ''9'') ys" "list_all (rng CHR ''0'' CHR ''9'') ms"
    "list_all (rng CHR ''0'' CHR ''9'') ds" "ds \<noteq> []"
    "list_all (rng CHR ''0'' CHR ''9'') hs" "hs \<noteq> []"
    "list_all (rng CHR ''0'' CHR ''9'') mis"
    "code_points s = ys @ 45 # ms @ 45 # ds @ 32 # hs @ 58 # mis @ 58 # ss"
  shows "strptime_datetime s
         = (case group REGEX_Y ys of None \<Rightarrow> None | Some y \<Rightarrow>
            case group REGEX_m ms of None \<Rightarrow> None | Some m \<Rightarrow>
            case group REGEX_d ds of None \<Rightarrow> None | Some d \<Rightarrow>
            case group REGEX_H hs of None \<Rightarrow> None | Some hh \<Rightarrow>
            case group REGEX_M mis of None \<Rightarrow> None | Some mi \<Rightarrow>
            case group REGEX_S ss of None \<Rightarrow> None | Some se \<Rightarrow>
              make_datetime y m d hh mi se 0)"
proof -
  define r6 where "r6 = mis @ 58 # ss"
  define r5 where "r5 = hs @ 58 # r6"
  define r3 where "r3 = ds @ 32 # r5"
  define r1 where "r1 = ms @ 45 # r3"
  have hd_ds: "hd r3 \<noteq> of_char CHR '' ''" "r3 \<noteq> []"
    using assms(3,4) by (cases ds; simp add: r3_def ascii_digit_not_sep)+
  have t3: "takeWhile (\<lambda>c. \<not> is_space c) r3 = ds" unfolding r3_def
    using assms(3) by (rule takeWhile_digits(5))
  have d3: "drop (length ds) r3 = 32 # r5" by (simp add: r3_def)
  have blank: "is_space 32" by (simp add: is_space_def)
  have nsp: "\<not> is_space (hd r5)" "r5 \<noteq> []"
    using assms(5,6) by (cases hs; simp add: r5_def ascii_digit_not_sep)+
  have w: "takeWhile is_space (32 # r5) = [32]" "dropWhile is_space (32 # r5) = r5"
    using nsp blank by (cases r5; simp)+
  have t5: "takeWhile not_colon r5 = hs" "dropWhile not_colon r5 = 58 # r6"
    unfolding r5_def using assms(5) by (simp_all add: takeWhile_digits)
  have t6: "takeWhile not_colon r6 = mis" "dropWhile not_colon r6 = 58 # ss"
    unfolding r6_def using assms(7) by (simp_all add: takeWhile_digits)
  have t1: "takeWhile not_dash r1 = ms" "dropWhile not_dash r1 = 45 # r3"
    unfolding r1_def using assms(2) by (simp_all add: takeWhile_digits)
  have t0: "takeWhile not_dash (ys @ 45 # r1) = ys"
    "dropWhile not_dash (ys @ 45 # r1) = 45 # r1"
    using assms(1) by (simp_all add: takeWhile_digits)
  have s: "code_points s = ys @ 45 # r1"
    by (simp add: assms(8) r1_def r3_def r5_def r6_def)
  show ?thesis
    unfolding strptime_datetime_def s Let_def t0 list.sel t1
    using hd_ds by (simp only: t3 d3 w t5 t6 list.sel list.simps if_False if_True simp_thms)
qed

lemma strptime_strftime:
  assumes "valid_datetime d"
  shows "strptime_datetime (strftime_datetime d) = Some (d\<lparr>microsecond := 0\<rparr>)"
proof -
  have dim: "days_in_month (year d) (month d) \<le> 31"
    by (simp add: days_in_month_def)
  have b: "year d < 10000" "1 \<le> year d" "1 \<le> month d" "month d \<le> 12" "1 \<le> day d"
    "day d \<le> 31" "hour d < 24" "minute d < 60" "second d < 60"
    using assms dim by (auto simp: valid_datetime_def)
  have f: "group REGEX_Y (code_points (pad4 (year d))) = Some (year d)"
    "group REGEX_m (code_points (pad2 (month d))) = Some (month d)"
    "group REGEX_d (code_points (pad2 (day d))) = Some (day d)"
    "group REGEX_H (code_points (pad2 (hour d))) = Some (hour d)"
    "group REGEX_M (code_points (pad2 (minute d))) = Some (minute d)"
    "group REGEX_S (code_points (pad2 (second d))) = Some (second d)"
    using b by (simp_all add: group_Y group_pad2)
  have v: "valid_datetime (d\<lparr>microsecond := 0\<rparr>)"
    using assms by (simp add: valid_datetime_def)
  have eq: "\<lparr>year = year d, month = month d, day = day d, hour = hour d, minute = minute d,
             second = second d, microsecond = 0\<rparr> = d\<lparr>microsecond := 0\<rparr>"
    by simp
  have asc: "list_all (\<lambda>c. (of_char c :: nat) < 128) (strftime_datetime d)"
    by (simp add: strftime_datetime_def strftime_date_def pad_ascii)
  have s: "code_points (strftime_datetime d)
           = code_points (pad4 (year d)) @ 45 # code_points (pad2 (month d)) @ 45 #
             code_points (pad2 (day d)) @ 32 # code_points (pad2 (hour d)) @ 58 #
             code_points (pad2 (minute d)) @ 58 # code_points (pad2 (second d))"
    by (simp add: code_points_ascii asc pad_ascii) (simp add: strftime_datetime_def strftime_date_def)
  have ne: "code_points (pad2 n) \<noteq> []" for n
    by (simp add: pad2_code)
  show ?thesis
    by (subst strptime_shape [OF pad4_code(2) pad2_code(2) pad2_code(2) ne pad2_code(2) ne
          pad2_code(2) s])
       (simp add: f make_datetime_def eq v)
qed

lemma lex_less_trans: "lex_less xs ys \<Longrightarrow> lex_less ys zs \<Longrightarrow> lex_less xs zs"
proof (induction xs ys arbitrary: zs rule: lex_less.induct)
  case (1 x xs y ys)
  then show ?case by (cases zs) auto
qed auto

lemma next_day_later:
  "lex_less [year d, month d, day d] [year (next_day d), month (next_day d), day (next_day d)]"
  by (simp add: next_day_def)

lemma next_day_time:
  "hour (next_day d) = hour d" "minute (next_day d) = minute d" "second (next_day d) = second d"
  "microsecond (next_day d) = microsecond d"
  by (simp_all add: next_day_def)

lemma next_day_year: "year d \<le> year (next_day d)"
  by (simp add: next_day_def)

lemma next_day_valid:
  "valid_datetime d \<Longrightarrow> year (next_day d) \<le> 9999 \<Longrightarrow> valid_datetime (next_day d)"
  by (auto simp: valid_datetime_def next_day_def days_in_month_def)

lemma funpow_next_day_time:
  "hour ((next_day ^^ n) d) = hour d" "minute ((next_day ^^ n) d) = minute d"
  "second ((next_day ^^ n) d) = second d" "microsecond ((next_day ^^ n) d) = microsecond d"
  by (induction n) (simp_all add: next_day_time)

lemma funpow_next_day_valid:
  "valid_datetime d \<Longrightarrow> year ((next_day ^^ n) d) \<le> 9999 \<Longrightarrow> valid_datetime ((next_day ^^ n) d)"
proof (induction n)
  case (Suc n)
  have "year ((next_day ^^ n) d) \<le> year ((next_day ^^ Suc n) d)"
    by (simp add: next_day_year)
  with Suc show ?case by (simp add: next_day_valid)
qed simp

lemma funpow_next_day_later:
  "0 < n \<Longrightarrow> lex_less [year d, month d, day d]
      [year ((next_day ^^ n) d), month ((next_day ^^ n) d), day ((next_day ^^ n) d)]"
proof (induction n)
  case (Suc n)
  show ?case
  proof (cases "n = 0")
    case True
    then show ?thesis using next_day_later [of d] by simp
  next
    case False
    with Suc have "lex_less [year d, month d, day d]
      [year ((next_day ^^ n) d), month ((next_day ^^ n) d), day ((next_day ^^ n) d)]" by simp
    then show ?thesis
      using next_day_later [of "(next_day ^^ n) d"] by (auto intro: lex_less_trans)
  qed
qed simp

lemma add_days_props:
  assumes "valid_datetime d" "add_days n d = Inr later" "0 < n"
  shows "valid_datetime later" "hour later = hour d" "minute later = minute d"
    "second later = second d" "microsecond later = microsecond d"
    "\<not> dt_gt d (later\<lparr>microsecond := k\<rparr>)"
proof -
  from assms(2) have l: "later = (next_day ^^ n) d" "year later \<le> 9999"
    by (auto simp: add_days_def Let_def split: if_splits)
  show "valid_datetime later" using funpow_next_day_valid [OF assms(1), of n] l by simp
  show "hour later = hour d" "minute later = minute d" "second later = second d"
    "microsecond later = microsecond d"
    by (simp_all add: l funpow_next_day_time)
  show "\<not> dt_gt d (later\<lparr>microsecond := k\<rparr>)"
    using funpow_next_day_later [OF assms(3), of d] unfolding l(1) [symmetric]
    by (auto simp: dt_gt_def dt_fields_def)
qed

lemma funpow_numeral_unfold:
  "(f ^^ numeral (Num.Bit0 k)) x = (f ^^ numeral k) ((f ^^ numeral k) x)"
  "(f ^^ numeral (Num.Bit1 k)) x = f ((f ^^ numeral k) ((f ^^ numeral k) x))"
  "(f ^^ numeral Num.One) x = f x"
proof -
  have "numeral (Num.Bit0 k) = (numeral k + numeral k :: nat)"
    by (simp add: numeral_Bit0)
  then show "(f ^^ numeral (Num.Bit0 k)) x = (f ^^ numeral k) ((f ^^ numeral k) x)"
    by (simp only: funpow_add o_apply)
  have "numeral (Num.Bit1 k) = Suc (numeral k + numeral k)"
    by (simp add: numeral_Bit1)
  then show "(f ^^ numeral (Num.Bit1 k)) x = f ((f ^^ numeral k) ((f ^^ numeral k) x))"
    by (simp only: funpow.simps funpow_add o_apply)
  show "(f ^^ numeral Num.One) x = f x" by simp
qed

lemma add_days_now0: "add_days 30 now0 = Inr later0"
  by (simp add: add_days_def funpow_numeral_unfold next_day_def days_in_month_def is_leap_def
      now0_def later0_def Let_def)

lemma strftime_nonempty: "strftime_datetime d \<noteq> []"
  by (simp add: strftime_datetime_def strftime_date_def pad4_def)

lemma find_token_after_update:
  assumes "list_all (\<lambda>r. token r \<noteq> Some tok \<or> user_id r = uid) us"
    and "list_ex (\<lambda>r. user_id r = uid) us"
  shows "\<exists>r0. r0 \<in> set us \<and> user_id r0 = uid
          \<and> find (\<lambda>r. token r = Some tok)
                (map (\<lambda>r. if user_id r = uid
                          then r\<lparr>token := Some tok, token_expires_at := Some e,
                                 updated_at := Some w\<rparr>
                          else r) us)
              = Some (r0\<lparr>token := Some tok, token_expires_at := Some e, updated_at := Some w\<rparr>)"
  using assms by (induction us) auto

lemma find_Some_mem: "find P xs = Some x \<Longrightarrow> x \<in> set xs"
  by (induction xs) (auto split: if_splits)

lemma login_ok:
  assumes "login H now tok st em pw = (LoginResponse uid tok', st')"
  shows "\<exists>later. tok' = tok \<and> list_ex (\<lambda>r. user_id r = uid) (users st)
           \<and> add_days 30 now = Inr later
           \<and> st' = st\<lparr>users :=
                 map (\<lambda>r. if user_id r = uid
                          then r\<lparr>token := Some tok,
                                 token_expires_at := Some (strftime_datetime later),
                                 updated_at := Some (strftime_datetime now)\<rparr>
                          else r) (users st)\<rparr>"
  using assms
  by (auto simp: login_def save_user_token_def verify_user_def list_ex_iff
      split: option.splits sum.splits dest: find_Some_mem)

lemma verify_user_alice: "verify_user sample_hash (users st0) ''a@x.com'' ''p'' = Some alice"
  by (simp add: verify_user_def sample_defs)

lemma login_alice:
  "login sample_hash now0 ''TN'' st0 ''a@x.com'' ''p''
     = (LoginResponse ''u-alice'' ''TN'',
        st0\<lparr>users := [alice\<lparr>token := Some ''TN'',
                               token_expires_at := Some (strftime_datetime later0),
                               updated_at := Some (strftime_datetime now0)\<rparr>,
                         bob, carol]\<rparr>)"
  by (simp add: login_def verify_user_alice save_user_token_def add_days_now0)
     (simp add: st0_def alice_def bob_def carol_def)

lemma update_sets_token:
  "list_all (\<lambda>r. user_id r \<noteq> uid \<or> (token r = Some tok \<and> token_expires_at r = Some e))
     (map (\<lambda>r. if user_id r = uid
               then r\<lparr>token := Some tok, token_expires_at := Some e, updated_at := Some w\<rparr>
               else r) us)"
  by (induction us) simp_all

lemma to_double_zero: "to_double 0 = Fin 0"
  by (simp add: to_double_def)

lemma to_double_1_1000:
  "to_double (1 / 1000) = Fin (1152921504606847 / 1152921504606846976)"
  by (subst to_double_eval[where e="-10"]) (simp_all add: float_eval)

lemma float_of_0001:
  "float_of_amount (Amount_Str ''0.001'') = Some (Fin (1152921504606847 / 1152921504606846976))"
  by (simp add: float_of_amount_def text_eval to_double_1_1000)

lemma round_0001: "py_round2 (Fin (1152921504606847 / 1152921504606846976)) = Fin 0"
  by (simp add: py_round2_def float_eval to_double_zero)

lemma normalize_0001: "normalize_amount (Amount_Str ''0.001'') = Inr (Fin 0)"
  by (simp add: normalize_amount_def float_of_0001 round_0001 float_le_zero_def)

section \<open>Properties\<close>

text \<open>
  C1. There is one fixed literal token, \<open>HARDCODED_TOKEN\<close>, on which \<open>verify_token\<close> returns
  a valid identity with user id \<open>token\<close> whatever the clock and whatever the users table
  hold: the table is not consulted, so the result is the same for any two tables and times.
\<close>

theorem hardcoded_token_always_accepted:
  "verify_token now us HARDCODED_TOKEN = Some hardcoded_info
   \<and> info_user_id hardcoded_info = ''token''
   \<and> token_valid hardcoded_info
   \<and> verify_token now us HARDCODED_TOKEN = verify_token now' us' HARDCODED_TOKEN
   \<and> HARDCODED_TOKEN = ''bQjfRqUpKlriby2lC8RLWBn8LbeLxgTsm5oITLp3R5M''"
  by (simp add: verify_token_def hardcoded_info_def HARDCODED_TOKEN_def)




text \<open>
  C9. For a stored bill owned by user A, \<open>delete_bill_endpoint\<close> with a token that
  \<open>verify_token\<close> resolves to another user B answers 403 and leaves the store unchanged, so
  the bill remains stored; with a token resolving to A it succeeds, after which the bill id
  is no longer found and a further delete request for it answers 404.
\<close>

theorem delete_requires_ownership:
  assumes "get_bill_by_id (bills st) bid = Some b"
    and "bill_user_id b = PStr a"
    and "verify_token now (users st) tokB = Some ib" and "info_user_id ib \<noteq> a"
    and "verify_token now (users st) tokA = Some ia" and "info_user_id ia = a"
  shows "delete_bill_endpoint now st tokB bid = (HTTPException 403, st)
       \<and> fst (delete_bill_endpoint now st tokA bid) = DeleteBillResponse
       \<and> get_bill_by_id (bills (snd (delete_bill_endpoint now st tokA bid))) bid = None
       \<and> fst (delete_bill_endpoint now (snd (delete_bill_endpoint now st tokA bid)) tokA bid)
           = HTTPException 404"
proof -
  have ex: "list_ex (\<lambda>r. bill_id r = PStr bid) (bills st)"
    using assms(1) unfolding get_bill_by_id_def by (rule find_Some_list_ex)
  have A: "delete_bill_endpoint now st tokA bid
         = (DeleteBillResponse, st\<lparr>bills := filter (\<lambda>r. bill_id r \<noteq> PStr bid) (bills st)\<rparr>)"
    using assms ex by (simp add: delete_bill_endpoint_def delete_bill_def)
  have gone: "get_bill_by_id (filter (\<lambda>r. bill_id r \<noteq> PStr bid) (bills st)) bid = None"
    unfolding get_bill_by_id_def by (rule find_filter_neg)
  have B: "delete_bill_endpoint now st tokB bid = (HTTPException 403, st)"
    using assms by (simp add: delete_bill_endpoint_def)
  have C: "fst (delete_bill_endpoint now
                 (st\<lparr>bills := filter (\<lambda>r. bill_id r \<noteq> PStr bid) (bills st)\<rparr>) tokA bid)
           = HTTPException 404"
    using assms(5) gone by (simp add: delete_bill_endpoint_def)
  show ?thesis
    using A B C gone by simp
qed

theorem delete_requires_ownership_witness:
  "delete_bill_endpoint now0 st0 ''TB'' ''b1'' = (HTTPException 403, st0)
   \<and> get_bill_by_id (bills st0) ''b1'' = Some bill1
   \<and> fst (delete_bill_endpoint now0 st0 ''TA'' ''b1'') = DeleteBillResponse
   \<and> get_bill_by_id (bills (snd (delete_bill_endpoint now0 st0 ''TA'' ''b1''))) ''b1'' = None
   \<and> fst (delete_bill_endpoint now0 (snd (delete_bill_endpoint now0 st0 ''TA'' ''b1'')) ''TA'' ''b1'')
       = HTTPException 404"
proof -
  have h1: "get_bill_by_id (bills st0) ''b1'' = Some bill1"
    by (simp add: get_bill_by_id_def st0_def bill1_def)
  have h2: "bill_user_id bill1 = PStr ''u-alice''" by (simp add: bill1_def)
  have h4: "info_user_id (row_info bob) \<noteq> ''u-alice''" by (simp add: row_info_def bob_def)
  have h6: "info_user_id (row_info alice) = ''u-alice''" by (simp add: row_info_def alice_def)
  show ?thesis
    using delete_requires_ownership [OF h1 h2 verify_bob h4 verify_alice h6] h1 by simp
qed

text \<open>
  C10 (counterexample). The claim that a stored row with a NULL or empty expiry makes its
  token valid at every time fails when another row holds the same token: the query gives
  the first row that holds it, and when the expiry of that row has passed the token is
  rejected, although the second row holds the token without an expiry. Alone in the
  table, the second row makes the token valid.
\<close>

theorem shared_token_of_expired_row_rejected:
  "token erin = Some ''TD'' \<and> token_expires_at erin = None
   \<and> verify_token now0 [dave, erin] ''TD'' = None
   \<and> verify_token now0 [erin] ''TD'' = Some (row_info erin)"
  by (simp add: verify_token_def HARDCODED_TOKEN_def sample_defs date_eval)

text \<open>
  C10 (amended). If the row that the token query returns, the first row that holds the
  token, has a NULL or empty \<open>token_expires_at\<close>, \<open>verify_token\<close> accepts the token at every
  time: no expiry comparison is made. The identity returned is that of the row (for the
  hard-coded literal, the hard-coded identity). A row is the one returned whenever no row
  before it holds the same token, so whenever it is the only row that holds the token
  (\<open>find_sole_holder\<close>).
\<close>

theorem token_without_expiry_never_expires:
  assumes "find (\<lambda>r. token r = Some tok) us = Some r"
    and "token_expires_at r = None \<or> token_expires_at r = Some []"
  shows "verify_token now us tok
           = Some (if tok = HARDCODED_TOKEN then hardcoded_info else row_info r)"
  using assms by (auto simp: verify_token_def)

theorem token_without_expiry_never_expires_witness:
  "find (\<lambda>r. token r = Some ''TC'') (users st0) = Some carol
   \<and> token_expires_at carol = None
   \<and> verify_token \<lparr>year = 9999, month = 12, day = 31, hour = 23, minute = 59, second = 59,
                    microsecond = 999999\<rparr> (users st0) ''TC'' = Some (row_info carol)"
proof -
  have h1: "find (\<lambda>r. token r = Some ''TC'') (users st0) = Some carol"
    by (simp add: sample_defs)
  have h2: "token_expires_at carol = None \<or> token_expires_at carol = Some []"
    by (simp add: carol_def)
  have h3: "''TC'' \<noteq> HARDCODED_TOKEN" by (simp add: HARDCODED_TOKEN_def)
  show ?thesis
    using token_without_expiry_never_expires [OF h1 h2] h1 h3 by (simp add: carol_def)
qed

text \<open>
  C3 (evaluation at the failing input). The upload paths compute
  \<open>round(float(...), 2)\<close> without the test \<open>num <= 0\<close> that \<open>normalize_amount\<close> makes on the
  manual path. With Bob's valid token and a well-formed reply whose amount is \<open>-5\<close>,
  \<open>upload_llm\<close> answers with status \<open>ok\<close> and stores a bill whose amount is \<open>-5.0\<close>. On the
  manual path the test comes before the rounding, so the amount \<open>0.001\<close> passes it and is
  normalized to \<open>0.0\<close>.
\<close>

theorem upload_stores_negative_amount:
  "upload_llm now0 st0 (Content_Json (PDict [(''amount'', PStr ''-5'')])) ''refund 5'' ''TB'' ''b2''
     = (UploadResult (Fin (- 5)),
        st0\<lparr>bills := [bill1,
                        \<lparr>bill_id = PStr ''b2'', bill_user_id = PStr ''u-bob'',
                         category = PStr OTHER_EXPENSE, amount = PFloat (Fin (- 5)),
                         date = PStr ''2026-11-04'', description = PStr [],
                         nw_type = PNone\<rparr>]\<rparr>)
   \<and> normalize_amount (Amount_Str ''0.001'') = Inr (Fin 0)"
  by (simp add: normalize_0001 upload_llm_def verify_bob parse_bill_text_def loads_or_raw_def strip_def
      is_space_def utf8_eval store_parsed_def dict_get_def float_of_parsed_minus5 round_minus5 today0
      save_bill_def truthy_def bind_error_def row_info_def bob_def Let_def)
    (simp add: st0_def bill1_def)

text \<open>
  C6 (evaluation at the failing input). A reply that \<open>json.loads\<close> rejects is turned into
  a dictionary holding only the raw text; the upload path then takes the default \<open>"0"\<close> for
  the amount and the other defaults, makes no check, and stores a bill with amount \<open>0.0\<close>.
\<close>

theorem malformed_reply_is_stored:
  "parse_qwen_file (Content_Malformed ''not json'') = Inr (PDict [(''raw'', PStr ''not json'')])
   \<and> upload_qwen_vl now0 st0 (Content_Malformed ''not json'') ''TB'' ''b3''
     = (UploadResult (Fin 0),
        st0\<lparr>bills := [bill1,
                        \<lparr>bill_id = PStr ''b3'', bill_user_id = PStr ''u-bob'',
                         category = PStr OTHER_EXPENSE, amount = PFloat (Fin 0),
                         date = PStr ''2026-11-04'', description = PStr [],
                         nw_type = PNone\<rparr>]\<rparr>)"
  by (simp add: upload_qwen_vl_def verify_bob parse_qwen_file_def loads_or_raw_def
      store_parsed_def dict_get_def float_of_parsed_zero round_zero today0
      save_bill_def truthy_def bind_error_def row_info_def bob_def Let_def)
    (simp add: st0_def bill1_def)

text \<open>
  C7 (evaluation at the failing input). \<open>manual_bill\<close> always puts the key \<open>date\<close> into
  \<open>bill_data\<close>, with the value \<open>None\<close> when the request has no date, so the default of
  \<open>bill_data.get("date", ...)\<close> in \<open>save_bill\<close> is never taken: the stored date is NULL, not
  the date of the clock.
\<close>

theorem manual_bill_without_date_stores_null:
  "rq_date (rq_bill req1) = None
   \<and> fst (manual_bill now0 empty_store req1) = ManualBillResponse ''b1''
   \<and> map date (bills (snd (manual_bill now0 empty_store req1))) = [PNone]
   \<and> strftime_date now0 = ''2026-11-04''"
  by (simp add: manual_req1) (simp add: req1_def date_eval now0_def)

text \<open>
  C4 (counterexample). The claim that a second submission of a bill id fails with a
  conflict response of the 400/409 class, not with an internal error, fails: the same valid
  manual request submitted twice is answered with status 500 the second time.
\<close>

theorem duplicate_bill_is_internal_error:
  "fst (manual_bill now0 empty_store req1) = ManualBillResponse ''b1''
   \<and> fst (manual_bill now0 (snd (manual_bill now0 empty_store req1)) req1) = HTTPException 500
   \<and> HTTPException 500 \<noteq> HTTPException 400 \<and> HTTPException 500 \<noteq> HTTPException 409"
proof -
  have "manual_bill now0 (snd (manual_bill now0 empty_store req1)) req1
          = (HTTPException 500, snd (manual_bill now0 empty_store req1))"
    by (simp add: manual_req1)
       (simp add: manual_bill_def manual_bill_data_def req1_def normalize_12345 store_eval
          CATEGORIES_def OTHER_EXPENSE_def)
  then show ?thesis by (simp add: manual_req1)
qed

text \<open>
  C4 (amended). When a manual submission has been stored, submitting the same request
  again, at any time, fails and leaves the store, hence the stored record, unchanged; the
  uniqueness violation of the table surfaces through the generic handler as status 500.
  Any other manual request with the same bill id also leaves the store unchanged and is
  answered 400 or 500.
\<close>

theorem duplicate_manual_bill_rejected:
  assumes "manual_bill now st request = (ManualBillResponse b, st1)"
  shows "manual_bill now' st1 request = (HTTPException 500, st1)
       \<and> get_bill_by_id (bills st1) b \<noteq> None
       \<and> (\<forall>request'. rq_bill_id (rq_bill request') = b \<longrightarrow>
             snd (manual_bill now' st1 request') = st1
             \<and> (fst (manual_bill now' st1 request') = HTTPException 400
                \<or> fst (manual_bill now' st1 request') = HTTPException 500))"
proof -
  from manual_bill_ok [OF assms] obtain a bs where
    b: "b = rq_bill_id (rq_bill request)"
    and s: "save_bill now (bills st) (manual_bill_data request a) = Inr bs"
    and st1: "st1 = st\<lparr>bills := bs\<rparr>"
    and again: "\<And>now' st'. manual_bill now' st' request =
                 (case save_bill now' (bills st') (manual_bill_data request a) of
                    Inl e \<Rightarrow> (HTTPException 500, st')
                  | Inr bs' \<Rightarrow> (ManualBillResponse b, st'\<lparr>bills := bs'\<rparr>))"
    by blast
  from save_bill_appends [OF s] obtain row where
    row: "bs = bills st @ [row]" "bill_id row = PStr b"
    by (auto simp: b)
  have ex: "list_ex (\<lambda>r. bill_id r = PStr b) (bills st1)"
    by (simp add: st1 row list_ex_iff)
  have "\<exists>e. save_bill now' (bills st1) (manual_bill_data request a) = Inl e"
    using ex by (intro save_bill_duplicate) (simp_all add: b)
  then have first: "manual_bill now' st1 request = (HTTPException 500, st1)"
    by (auto simp: again)
  have found: "get_bill_by_id (bills st1) b \<noteq> None"
    using ex by (auto simp: get_bill_by_id_def list_ex_iff find_None_iff)
  show ?thesis
    using first found manual_bill_duplicate [of _ st1 now'] ex by auto
qed

theorem duplicate_manual_bill_rejected_witness:
  "manual_bill now0 empty_store req1 = (ManualBillResponse ''b1'', snd (manual_bill now0 empty_store req1))
   \<and> manual_bill now0 (snd (manual_bill now0 empty_store req1)) req1
       = (HTTPException 500, snd (manual_bill now0 empty_store req1))
   \<and> snd (manual_bill now0 (snd (manual_bill now0 empty_store req1)) (req2\<lparr>rq_bill := (rq_bill req2)\<lparr>rq_bill_id := ''b1''\<rparr>\<rparr>))
       = snd (manual_bill now0 empty_store req1)"
proof -
  have h: "manual_bill now0 empty_store req1
             = (ManualBillResponse ''b1'', snd (manual_bill now0 empty_store req1))"
    by (simp add: manual_req1)
  show ?thesis
    using duplicate_manual_bill_rejected [OF h, of now0] h by simp
qed

text \<open>
  C5 (counterexample). The claim that the stored amount is the input rounded half up
  fails: the amount \<open>0.125\<close> is exactly a double and lies halfway between \<open>0.12\<close> and
  \<open>0.13\<close>; half-up rounding gives \<open>0.13\<close>, but \<open>manual_bill\<close> stores the double nearest to
  \<open>0.12\<close>, which is below the input.
\<close>

theorem manual_amount_not_half_up:
  "float_of_amount (rq_amount (rq_bill req2)) = Some (Fin (1 / 8))
   \<and> map amount (bills (snd (manual_bill now0 empty_store req2)))
       = [PFloat (Fin (1080863910568919 / 9007199254740992))]
   \<and> to_double (3 / 25) = Fin (1080863910568919 / 9007199254740992)
   \<and> spec_round_half_up (1 / 8) = 13 / 100
   \<and> to_double (spec_round_half_up (1 / 8)) = Fin (1170935903116329 / 9007199254740992)
   \<and> (1080863910568919 / 9007199254740992 :: rat) < 1 / 8"
  by (simp add: manual_req2 to_double_3_25)
     (simp add: req2_def float_of_0125 spec_round_half_up_def floor_rat_numeral_div
        to_double_13_100)

text \<open>
  C5 (amended). For every manual submission that is stored, the amount read from the
  request is a float \<open>x\<close> that is not \<open>\<le> 0\<close>, and the stored amount is \<open>round(x, 2)\<close>, or
  NULL when that is \<open>nan\<close>: for a finite \<open>x\<close> it is the double nearest to \<open>k / 100\<close>, where
  \<open>k\<close> is the integer nearest to \<open>100 x\<close>, a tie going to the even \<open>k\<close>. In particular the
  amount \<open>12.345\<close>, whose double lies above the midpoint, is stored as the double nearest to
  \<open>12.35\<close>, and the amount \<open>nan\<close> is stored as NULL.
\<close>

theorem manual_amount_rounds_half_even:
  assumes "manual_bill now st request = (ManualBillResponse b, st1)"
  shows "(\<exists>x. float_of_amount (rq_amount (rq_bill request)) = Some x \<and> \<not> float_le_zero x
            \<and> bills st1 = bills st @ [last (bills st1)]
            \<and> amount (last (bills st1))
                = (if py_round2 x = NaN then PNone else PFloat (py_round2 x))
            \<and> (\<forall>q. x = Fin q \<longrightarrow>
                  (\<exists>k. py_round2 x = to_double (of_int k / 100)
                     \<and> \<bar>of_int k - q * 100\<bar> \<le> 1 / 2
                     \<and> (\<bar>of_int k - q * 100\<bar> = 1 / 2 \<longrightarrow> even k))))
       \<and> normalize_amount (Amount_Str ''12.345'') = Inr (to_double (247 / 20))
       \<and> to_double (247 / 20) = Fin (6952431924753203 / 562949953421312)
       \<and> map amount (bills (snd (manual_bill now0 empty_store req3))) = [PNone]"
proof -
  from manual_bill_ok [OF assms] obtain a bs where
    n: "normalize_amount (rq_amount (rq_bill request)) = Inr a"
    and s: "save_bill now (bills st) (manual_bill_data request a) = Inr bs"
    and st1: "st1 = st\<lparr>bills := bs\<rparr>"
    by blast
  from normalize_amount_Inr [OF n] obtain x where
    x: "float_of_amount (rq_amount (rq_bill request)) = Some x" "\<not> float_le_zero x"
       "a = py_round2 x"
    by blast
  from save_bill_appends [OF s] obtain row where
    row: "bs = bills st @ [row]" "amount row = (if a = NaN then PNone else PFloat a)"
    by auto
  have near: "\<exists>k. py_round2 (Fin q) = to_double (of_int k / 100)
                \<and> \<bar>of_int k - q * 100\<bar> \<le> 1 / 2
                \<and> (\<bar>of_int k - q * 100\<bar> = 1 / 2 \<longrightarrow> even k)" for q
    using round_half_even_near [of "q * 100"] round_half_even_tie [of "q * 100"]
    by (intro exI [of _ "round_half_even (q * 100)"]) (simp add: py_round2_def)
  have main: "\<exists>x. float_of_amount (rq_amount (rq_bill request)) = Some x \<and> \<not> float_le_zero x
            \<and> bills st1 = bills st @ [last (bills st1)]
            \<and> amount (last (bills st1))
                = (if py_round2 x = NaN then PNone else PFloat (py_round2 x))
            \<and> (\<forall>q. x = Fin q \<longrightarrow>
                  (\<exists>k. py_round2 x = to_double (of_int k / 100)
                     \<and> \<bar>of_int k - q * 100\<bar> \<le> 1 / 2
                     \<and> (\<bar>of_int k - q * 100\<bar> = 1 / 2 \<longrightarrow> even k)))"
    using x row near by (intro exI [of _ x]) (simp add: st1)
  show ?thesis
    using main by (simp add: normalize_12345 to_double_1235 manual_req3)
qed

theorem manual_amount_rounds_half_even_witness:
  "manual_bill now0 empty_store req1 = (ManualBillResponse ''b1'', snd (manual_bill now0 empty_store req1))
   \<and> float_of_amount (rq_amount (rq_bill req1)) = Some (Fin (6949617174986097 / 562949953421312))
   \<and> amount (last (bills (snd (manual_bill now0 empty_store req1))))
       = PFloat (py_round2 (Fin (6949617174986097 / 562949953421312)))
   \<and> py_round2 (Fin (6949617174986097 / 562949953421312))
       = Fin (6952431924753203 / 562949953421312)"
proof -
  have h: "manual_bill now0 empty_store req1
             = (ManualBillResponse ''b1'', snd (manual_bill now0 empty_store req1))"
    by (simp add: manual_req1)
  have f: "float_of_amount (rq_amount (rq_bill req1))
             = Some (Fin (6949617174986097 / 562949953421312))"
    by (simp add: req1_def float_of_12345)
  show ?thesis
    using manual_amount_rounds_half_even [OF h] h f by (auto simp: round_12345)
qed

text \<open>
  C8 (counterexample). The claim that the expiry is exactly 30 days from issuance and
  that the token is accepted exactly while the clock has not exceeded it fails below the
  second: the expiry is written with \<open>%Y-%m-%d %H:%M:%S\<close>, which drops the microseconds.
  A token issued at 10:30:15.500000 is rejected at 10:30:15.250000 thirty days later,
  a quarter of a second before 30 days have passed.
\<close>

theorem token_expires_before_thirty_days:
  "fst (login sample_hash now0 ''TN'' st0 ''a@x.com'' ''p'') = LoginResponse ''u-alice'' ''TN''
   \<and> add_days 30 now0 = Inr later0
   \<and> \<not> dt_gt now1 later0
   \<and> verify_token now1 (users (snd (login sample_hash now0 ''TN'' st0 ''a@x.com'' ''p''))) ''TN''
       = None"
proof -
  note l = login_alice
  have e: "strftime_datetime later0 = ''2026-12-04 10:30:15''"
    by (simp add: date_eval later0_def)
  have p: "strptime_datetime ''2026-12-04 10:30:15''
           = Some \<lparr>year = 2026, month = 12, day = 4, hour = 10, minute = 30, second = 15,
                   microsecond = 0\<rparr>"
    by (simp add: date_eval text_eval)
  have v: "verify_token now1 [alice\<lparr>token := Some ''TN'',
                                   token_expires_at := Some ''2026-12-04 10:30:15'',
                                   updated_at := Some (strftime_datetime now0)\<rparr>,
                             bob, carol] ''TN'' = None"
    by (simp add: verify_token_def HARDCODED_TOKEN_def p)
       (simp add: dt_gt_def dt_fields_def now1_def)
  have g: "\<not> dt_gt now1 later0"
    by (simp add: dt_gt_def dt_fields_def now1_def later0_def)
  show ?thesis by (simp add: l e v g add_days_now0)
qed

text \<open>
  C8 (amended). A login at time \<open>now\<close> that issues the token \<open>tok\<close> to the user \<open>uid\<close> writes
  \<open>tok\<close> and the expiry text into every row of that user, overwriting what was there. The
  expiry text is the time 30 days after \<open>now\<close> at the same time of day, and it reads back
  as that time with the microseconds dropped. Provided \<open>tok\<close> is not the hard-coded literal
  and no other user holds it, \<open>verify_token\<close> accepts \<open>tok\<close> exactly at the times that do not
  exceed this truncated expiry, with the identity of \<open>uid\<close>; in particular it accepts it
  at the time of issuance.
\<close>

theorem login_token_lifetime:
  assumes "valid_datetime now"
    and "login H now tok st em pw = (LoginResponse uid tok, st')"
    and "tok \<noteq> HARDCODED_TOKEN"
    and "list_all (\<lambda>r. token r \<noteq> Some tok \<or> user_id r = uid) (users st)"
  shows "\<exists>later. add_days 30 now = Inr later
      \<and> hour later = hour now \<and> minute later = minute now \<and> second later = second now
      \<and> microsecond later = microsecond now
      \<and> list_all (\<lambda>r. user_id r \<noteq> uid
                    \<or> (token r = Some tok
                       \<and> token_expires_at r = Some (strftime_datetime later))) (users st')
      \<and> strptime_datetime (strftime_datetime later) = Some (later\<lparr>microsecond := 0\<rparr>)
      \<and> (\<forall>now'. (verify_token now' (users st') tok \<noteq> None)
                  = (\<not> dt_gt now' (later\<lparr>microsecond := 0\<rparr>)))
      \<and> (\<forall>now' i. verify_token now' (users st') tok = Some i \<longrightarrow> info_user_id i = uid)
      \<and> verify_token now (users st') tok \<noteq> None"
proof -
  from login_ok [OF assms(2)] obtain later where
    ex: "list_ex (\<lambda>r. user_id r = uid) (users st)"
    and later: "add_days 30 now = Inr later"
    and st': "st' = st\<lparr>users :=
                 map (\<lambda>r. if user_id r = uid
                          then r\<lparr>token := Some tok,
                                 token_expires_at := Some (strftime_datetime later),
                                 updated_at := Some (strftime_datetime now)\<rparr>
                          else r) (users st)\<rparr>"
    by blast
  note p = add_days_props [OF assms(1) later]
  have rt: "strptime_datetime (strftime_datetime later) = Some (later\<lparr>microsecond := 0\<rparr>)"
    using p(1) by (simp add: strptime_strftime)
  from find_token_after_update [OF assms(4) ex, where e = "strftime_datetime later"
      and w = "strftime_datetime now"]
  obtain r0 where r0: "user_id r0 = uid"
    and f0: "find (\<lambda>r. token r = Some tok)
              (map (\<lambda>r. if user_id r = uid
                        then r\<lparr>token := Some tok,
                               token_expires_at := Some (strftime_datetime later),
                               updated_at := Some (strftime_datetime now)\<rparr>
                        else r) (users st))
            = Some (r0\<lparr>token := Some tok, token_expires_at := Some (strftime_datetime later),
                       updated_at := Some (strftime_datetime now)\<rparr>)"
    by blast
  have f: "find (\<lambda>r. token r = Some tok) (users st')
            = Some (r0\<lparr>token := Some tok, token_expires_at := Some (strftime_datetime later),
                       updated_at := Some (strftime_datetime now)\<rparr>)"
    unfolding st' using f0 by simp
  have vt: "verify_token now' (users st') tok
            = (if dt_gt now' (later\<lparr>microsecond := 0\<rparr>) then None
               else Some (row_info (r0\<lparr>token := Some tok,
                                        token_expires_at := Some (strftime_datetime later),
                                        updated_at := Some (strftime_datetime now)\<rparr>)))" for now'
    using assms(3) by (simp add: verify_token_def f strftime_nonempty rt)
  have upd: "list_all (\<lambda>r. user_id r \<noteq> uid
                \<or> (token r = Some tok
                   \<and> token_expires_at r = Some (strftime_datetime later))) (users st')"
  proof -
    have "users st' = map (\<lambda>r. if user_id r = uid
                          then r\<lparr>token := Some tok,
                                 token_expires_at := Some (strftime_datetime later),
                                 updated_at := Some (strftime_datetime now)\<rparr>
                          else r) (users st)"
      by (simp add: st')
    then show ?thesis by (simp only: update_sets_token)
  qed
  have valid_now: "verify_token now (users st') tok \<noteq> None"
    using p(6) [of 0] by (simp add: vt)
  have who: "verify_token now' (users st') tok = Some i \<Longrightarrow> info_user_id i = uid" for now' i
    using r0 by (simp add: vt row_info_def split: if_splits) (metis user_info.select_convs(1))
  show ?thesis
    using later p(2-5) upd rt valid_now who by (intro exI [of _ later]) (simp add: vt)
qed

theorem login_token_lifetime_witness:
  "valid_datetime now0
   \<and> fst (login sample_hash now0 ''TN'' st0 ''a@x.com'' ''p'') = LoginResponse ''u-alice'' ''TN''
   \<and> ''TN'' \<noteq> HARDCODED_TOKEN
   \<and> verify_token now0 (users (snd (login sample_hash now0 ''TN'' st0 ''a@x.com'' ''p''))) ''TN''
       \<noteq> None"
proof -
  have v: "valid_datetime now0"
    by (simp add: valid_datetime_def now0_def days_in_month_def)
  have l0: "fst (login sample_hash now0 ''TN'' st0 ''a@x.com'' ''p'')
             = LoginResponse ''u-alice'' ''TN''"
    by (simp add: login_alice)
  then have l: "login sample_hash now0 ''TN'' st0 ''a@x.com'' ''p''
             = (LoginResponse ''u-alice'' ''TN'',
                snd (login sample_hash now0 ''TN'' st0 ''a@x.com'' ''p''))"
    by (metis prod.collapse)
  have t: "''TN'' \<noteq> HARDCODED_TOKEN" by (simp add: HARDCODED_TOKEN_def)
  have u: "list_all (\<lambda>r. token r \<noteq> Some ''TN'' \<or> user_id r = ''u-alice'') (users st0)"
    by (simp add: sample_defs)
  show ?thesis
    using login_token_lifetime [OF v l t u] v l0 t by auto
qed

end
